theory Spec2Isabelle
  imports Complex_Main "HOL-Library.Word"
begin

section \<open>JavaScript strings and byte arrays\<close>

text \<open>
  A JavaScript string is a sequence of 16-bit code units; a \<open>Uint8Array\<close> is a
  sequence of bytes. String literals of the source are written with \<open>js\<close>.
\<close>

type_synonym js_string = "16 word list"
type_synonym bytes = "8 word list"

definition cu :: "char \<Rightarrow> 16 word" where
  "cu c = of_nat (of_char c)"

definition js :: "string \<Rightarrow> js_string" where
  "js s = map cu s"

text \<open>
  Values thrown by the source or by the builtins it calls: \<open>new Error(msg)\<close>, a thrown
  string (\<open>throw 'PARSE_ERROR'\<close>), the builtin exceptions, and a rejection of a
  \<open>crypto.subtle\<close> promise.
\<close>

datatype error =
    Error string
  | Thrown string
  | TypeError
  | URIError
  | SyntaxError
  | RangeError
  | InvalidCharacterError
  | CryptoError string

text \<open>\<open>String.fromCharCode.apply(0, a)\<close> and \<open>Array.prototype.map.call(s, c => c.charCodeAt(0))\<close>
  stored into a \<open>Uint8Array\<close> (which keeps the low 8 bits).\<close>

definition fromCharCode :: "bytes \<Rightarrow> js_string" where
  "fromCharCode a = map ucast a"

definition charCodes :: "js_string \<Rightarrow> bytes" where
  "charCodes s = map ucast s"

text \<open>\<open>s.split('.')\<close>: the separator never appears in a part, and there is always at
  least one part.\<close>

fun split :: "'a \<Rightarrow> 'a list \<Rightarrow> 'a list list" where
  "split sep [] = [[]]"
| "split sep (c # cs) =
     (if c = sep then [] # split sep cs
      else (case split sep cs of [] \<Rightarrow> [[c]] | p # ps \<Rightarrow> (c # p) # ps))"

text \<open>\<open>s.replace(/x/g, 'y')\<close> for a single code unit \<open>x\<close>.\<close>

definition replace_all :: "16 word \<Rightarrow> 16 word \<Rightarrow> js_string \<Rightarrow> js_string" where
  "replace_all x y s = map (\<lambda>c. if c = x then y else c) s"

text \<open>The regular expression class \<open>\s\<close>: WhiteSpace and LineTerminator of ECMAScript.\<close>

definition is_regex_space :: "16 word \<Rightarrow> bool" where
  "is_regex_space c \<longleftrightarrow>
     c \<in> {0x09, 0x0A, 0x0B, 0x0C, 0x0D, 0x20, 0xA0, 0x1680, 0x2028, 0x2029, 0x202F,
          0x205F, 0x3000, 0xFEFF} \<or> (0x2000 \<le> c \<and> c \<le> 0x200A)"

definition remove_spaces :: "js_string \<Rightarrow> js_string" where
  "remove_spaces s = filter (\<lambda>c. \<not> is_regex_space c) s"

section \<open>The builtins \<open>btoa\<close> and \<open>atob\<close>\<close>

text \<open>
  \<open>btoa\<close> and \<open>atob\<close> follow the HTML standard (forgiving-base64 encode and decode).
  A sextet is a \<open>nat\<close> below 64.
\<close>

definition b64_char :: "nat \<Rightarrow> 16 word" where
  "b64_char i =
     (if i < 26 then of_nat (65 + i)
      else if i < 52 then of_nat (97 + (i - 26))
      else if i < 62 then of_nat (48 + (i - 52))
      else if i = 62 then 0x2B else 0x2F)"

definition is_b64_char :: "16 word \<Rightarrow> bool" where
  "is_b64_char c \<longleftrightarrow>
     (0x41 \<le> c \<and> c \<le> 0x5A) \<or> (0x61 \<le> c \<and> c \<le> 0x7A) \<or> (0x30 \<le> c \<and> c \<le> 0x39)
     \<or> c = 0x2B \<or> c = 0x2F"

definition b64_index :: "16 word \<Rightarrow> nat" where
  "b64_index c =
     (if 0x41 \<le> c \<and> c \<le> 0x5A then unat c - 65
      else if 0x61 \<le> c \<and> c \<le> 0x7A then unat c - 97 + 26
      else if 0x30 \<le> c \<and> c \<le> 0x39 then unat c - 48 + 52
      else if c = 0x2B then 62 else 63)"

fun b64_encode :: "bytes \<Rightarrow> js_string" where
  "b64_encode (a # b # c # r) =
     b64_char (unat a div 4) # b64_char (unat a mod 4 * 16 + unat b div 16)
     # b64_char (unat b mod 16 * 4 + unat c div 64) # b64_char (unat c mod 64)
     # b64_encode r"
| "b64_encode [a, b] =
     [b64_char (unat a div 4), b64_char (unat a mod 4 * 16 + unat b div 16),
      b64_char (unat b mod 16 * 4), 0x3D]"
| "b64_encode [a] = [b64_char (unat a div 4), b64_char (unat a mod 4 * 16), 0x3D, 0x3D]"
| "b64_encode [] = []"

text \<open>\<open>btoa\<close> throws on a code unit above \<open>0xFF\<close>.\<close>

definition btoa :: "js_string \<Rightarrow> error + js_string" where
  "btoa s =
     (if list_all (\<lambda>c. c \<le> 0xFF) s then Inr (b64_encode (charCodes s))
      else Inl InvalidCharacterError)"

text \<open>Decoding a list of sextets; a trailing group of two or three sextets gives one or
  two bytes and its unused low bits are discarded.\<close>

fun b64_decode :: "nat list \<Rightarrow> bytes" where
  "b64_decode (s0 # s1 # s2 # s3 # r) =
     of_nat (s0 * 4 + s1 div 16) # of_nat (s1 mod 16 * 16 + s2 div 4)
     # of_nat (s2 mod 4 * 64 + s3) # b64_decode r"
| "b64_decode [s0, s1, s2] = [of_nat (s0 * 4 + s1 div 16), of_nat (s1 mod 16 * 16 + s2 div 4)]"
| "b64_decode [s0, s1] = [of_nat (s0 * 4 + s1 div 16)]"
| "b64_decode [s0] = []"
| "b64_decode [] = []"

definition is_ascii_whitespace :: "16 word \<Rightarrow> bool" where
  "is_ascii_whitespace c \<longleftrightarrow> c \<in> {0x09, 0x0A, 0x0C, 0x0D, 0x20}"

text \<open>Step 2 of forgiving-base64 decode: when the length is a multiple of 4, one or two
  trailing \<open>=\<close> are removed.\<close>

definition strip_padding :: "js_string \<Rightarrow> js_string" where
  "strip_padding d =
     (if length d mod 4 = 0 \<and> d \<noteq> [] \<and> last d = 0x3D
      then (let d1 = butlast d in if d1 \<noteq> [] \<and> last d1 = 0x3D then butlast d1 else d1)
      else d)"

definition atob :: "js_string \<Rightarrow> error + js_string" where
  "atob data =
     (let d = strip_padding (filter (\<lambda>c. \<not> is_ascii_whitespace c) data)
      in if length d mod 4 = 1 then Inl InvalidCharacterError
         else if \<not> list_all is_b64_char d then Inl InvalidCharacterError
         else Inr (fromCharCode (b64_decode (map b64_index d))))"

section \<open>The class \<open>Base64URL\<close>\<close>

definition Base64URL_parse :: "js_string \<Rightarrow> error + bytes" where
  "Base64URL_parse s =
     (case atob (remove_spaces (replace_all 0x5F 0x2F (replace_all 0x2D 0x2B s))) of
        Inl e \<Rightarrow> Inl e
      | Inr r \<Rightarrow> Inr (charCodes r))"

text \<open>
  \<open>stringify\<close> passes the bytes as the arguments of one call,
  \<open>String.fromCharCode.apply(0, a)\<close>, and an engine accepts only so many arguments:
  beyond \<open>max_args\<close>, a number that depends on the engine, the call throws a
  \<open>RangeError\<close>.
\<close>

definition Base64URL_stringify :: "nat \<Rightarrow> bytes \<Rightarrow> error + js_string" where
  "Base64URL_stringify max_args a =
     (if max_args < length a then Inl RangeError
      else
        (case btoa (fromCharCode a) of
           Inl e \<Rightarrow> Inl e
         | Inr r \<Rightarrow>
             Inr (replace_all 0x2F 0x5F (replace_all 0x2B 0x2D (filter (\<lambda>c. c \<noteq> 0x3D) r)))))"

text \<open>The sextets that \<open>b64_encode\<close> writes, without the padding.\<close>

fun sextets :: "bytes \<Rightarrow> nat list" where
  "sextets (a # b # c # r) =
     unat a div 4 # (unat a mod 4 * 16 + unat b div 16)
     # (unat b mod 16 * 4 + unat c div 64) # unat c mod 64 # sextets r"
| "sextets [a, b] = [unat a div 4, unat a mod 4 * 16 + unat b div 16, unat b mod 16 * 4]"
| "sextets [a] = [unat a div 4, unat a mod 4 * 16]"
| "sextets [] = []"


section \<open>UTF-8 through the URI builtins\<close>

text \<open>
  The source converts between a string and its UTF-8 octets with the idioms
  \<open>unescape(encodeURIComponent(str))\<close> and \<open>decodeURIComponent(escape(bin))\<close>. The
  percent-encoded text in the middle is not kept: \<open>encode_utf8\<close> gives the octets that
  \<open>encodeURIComponent\<close> writes as \<open>%XX\<close> (or as an unreserved character) and that
  \<open>unescape\<close> reads back, and \<open>decode_utf8\<close> reads the octets that \<open>escape\<close> passes
  to \<open>decodeURIComponent\<close>. Both builtins throw \<open>URIError\<close>: the first on a lone
  surrogate, the second on octets that are not well-formed UTF-8.
\<close>

definition is_high_surrogate :: "16 word \<Rightarrow> bool" where
  "is_high_surrogate c \<longleftrightarrow> 0xD800 \<le> c \<and> c \<le> 0xDBFF"

definition is_low_surrogate :: "16 word \<Rightarrow> bool" where
  "is_low_surrogate c \<longleftrightarrow> 0xDC00 \<le> c \<and> c \<le> 0xDFFF"

definition utf8_octets :: "nat \<Rightarrow> bytes" where
  "utf8_octets v =
     (if v < 0x80 then [of_nat v]
      else if v < 0x800 then [of_nat (0xC0 + v div 64), of_nat (0x80 + v mod 64)]
      else if v < 0x10000 then
        [of_nat (0xE0 + v div 4096), of_nat (0x80 + v div 64 mod 64), of_nat (0x80 + v mod 64)]
      else
        [of_nat (0xF0 + v div 262144), of_nat (0x80 + v div 4096 mod 64),
         of_nat (0x80 + v div 64 mod 64), of_nat (0x80 + v mod 64)])"

fun encode_utf8 :: "js_string \<Rightarrow> error + bytes" where
  "encode_utf8 [] = Inr []"
| "encode_utf8 (c # cs) =
     (if is_low_surrogate c then Inl URIError
      else if is_high_surrogate c then
        (case cs of
           [] \<Rightarrow> Inl URIError
         | k # ks \<Rightarrow>
             if is_low_surrogate k then
               (case encode_utf8 ks of
                  Inl e \<Rightarrow> Inl e
                | Inr r \<Rightarrow>
                    Inr (utf8_octets ((unat c - 0xD800) * 0x400 + (unat k - 0xDC00) + 0x10000) @ r))
             else Inl URIError)
      else (case encode_utf8 cs of Inl e \<Rightarrow> Inl e | Inr r \<Rightarrow> Inr (utf8_octets (unat c) @ r)))"

definition is_continuation :: "16 word \<Rightarrow> bool" where
  "is_continuation b \<longleftrightarrow> 0x80 \<le> b \<and> b \<le> 0xBF"

text \<open>The number of octets announced by a leading octet; 0 when the octet cannot lead
  (a continuation octet, \<open>0xF8\<close> and above, or a code unit above \<open>0xFF\<close>, which
  \<open>escape\<close> writes as \<open>%uXXXX\<close>).\<close>

definition sequence_length :: "16 word \<Rightarrow> nat" where
  "sequence_length b =
     (if 0xC0 \<le> b \<and> b \<le> 0xDF then 2
      else if 0xE0 \<le> b \<and> b \<le> 0xEF then 3
      else if 0xF0 \<le> b \<and> b \<le> 0xF7 then 4
      else 0)"

definition code_point :: "16 word \<Rightarrow> js_string \<Rightarrow> nat" where
  "code_point b conts =
     foldl (\<lambda>v c. v * 64 + (unat c - 0x80))
       (unat b - (if length conts = 1 then 0xC0 else if length conts = 2 then 0xE0 else 0xF0))
       conts"

text \<open>No overlong form, no surrogate, nothing above \<open>U+10FFFF\<close>.\<close>

definition valid_code_point :: "nat \<Rightarrow> nat \<Rightarrow> bool" where
  "valid_code_point n v \<longleftrightarrow>
     (n = 2 \<and> 0x80 \<le> v) \<or>
     (n = 3 \<and> 0x800 \<le> v \<and> (v < 0xD800 \<or> 0xDFFF < v)) \<or>
     (n = 4 \<and> 0x10000 \<le> v \<and> v \<le> 0x10FFFF)"

definition utf16_units :: "nat \<Rightarrow> js_string" where
  "utf16_units v =
     (if v < 0x10000 then [of_nat v]
      else [of_nat (0xD800 + (v - 0x10000) div 0x400), of_nat (0xDC00 + (v - 0x10000) mod 0x400)])"

fun decode_utf8 :: "js_string \<Rightarrow> error + js_string" where
  "decode_utf8 [] = Inr []"
| "decode_utf8 (b # bs) =
     (if b < 0x80 then (case decode_utf8 bs of Inl e \<Rightarrow> Inl e | Inr r \<Rightarrow> Inr (b # r))
      else
        (let n = sequence_length b in
         if n = 0 \<or> length bs < n - 1 \<or> \<not> list_all is_continuation (take (n - 1) bs)
         then Inl URIError
         else if \<not> valid_code_point n (code_point b (take (n - 1) bs)) then Inl URIError
         else (case decode_utf8 (drop (n - 1) bs) of
                 Inl e \<Rightarrow> Inl e
               | Inr r \<Rightarrow> Inr (utf16_units (code_point b (take (n - 1) bs)) @ r))))"

section \<open>JSON values\<close>

text \<open>
  A number is the value of an IEEE double that \<open>JSON.parse\<close> can return: a rational
  (the two zeros are not told apart: both are falsy and compare alike) or an infinity,
  which a literal such as \<open>1e999\<close> gives. An object is its list of properties in
  order, each key once.
\<close>

datatype js_number = Num rat | PosInfinity | NegInfinity

datatype json =
    JNull
  | JBool bool
  | JNumber js_number
  | JString js_string
  | JArray "json list"
  | JObject "(js_string \<times> json) list"

type_synonym json_object = "(js_string \<times> json) list"

text \<open>\<open>obj[k] = v\<close> on an ordinary object: an existing property keeps its place, a new one
  goes last (the keys set by the source, \<open>iat\<close> and \<open>alg\<close>, are not array indices).\<close>

fun set_prop :: "js_string \<Rightarrow> json \<Rightarrow> json_object \<Rightarrow> json_object" where
  "set_prop k v [] = [(k, v)]"
| "set_prop k v ((k', v') # ps) =
     (if k' = k then (k, v) # ps else (k', v') # set_prop k v ps)"

text \<open>Reading the property \<open>nbf\<close> or \<open>exp\<close> of a parsed value; \<open>None\<close> is
  \<open>undefined\<close>. Only an object can have it: no builtin prototype defines these names.\<close>

fun get_claim :: "json \<Rightarrow> js_string \<Rightarrow> json option" where
  "get_claim (JObject ps) k = map_of ps k"
| "get_claim _ k = None"

text \<open>ToBoolean.\<close>

fun truthy :: "json \<Rightarrow> bool" where
  "truthy JNull = False"
| "truthy (JBool b) = b"
| "truthy (JNumber n) = (n \<noteq> Num 0)"
| "truthy (JString s) = (s \<noteq> [])"
| "truthy (JArray xs) = True"
| "truthy (JObject ps) = True"

definition truthy_prop :: "json option \<Rightarrow> bool" where
  "truthy_prop p = (case p of None \<Rightarrow> False | Some v \<Rightarrow> truthy v)"

fun num_less :: "js_number \<Rightarrow> js_number \<Rightarrow> bool" where
  "num_less (Num a) (Num b) = (a < b)"
| "num_less (Num a) PosInfinity = True"
| "num_less NegInfinity (Num b) = True"
| "num_less NegInfinity PosInfinity = True"
| "num_less _ _ = False"

section \<open>The platform\<close>

text \<open>
  What the source takes from its host and does not define: \<open>JSON.parse\<close>,
  \<open>JSON.stringify\<close>, the conversion of a string to a number, the number of arguments
  that a call accepts, and \<open>crypto.subtle\<close>. They are parameters of the model. A rejected promise is an error value; \<open>'k\<close> is the type
  of key handles. The algorithm argument of \<open>crypto.subtle\<close> is \<open>None\<close> when the value
  passed is not an entry of the table \<open>algorithms\<close>.
\<close>

datatype key_format = Raw | Pkcs8 | Spki

datatype key_usage = Sign | Verify

record alg_params =
  name :: string
  namedCurve :: "string option"
  hash :: string

record 'k platform =
  JSON_parse :: "js_string \<Rightarrow> error + json"
  JSON_stringify :: "json \<Rightarrow> js_string"
  StringToNumber :: "js_string \<Rightarrow> js_number option"
  max_arguments :: nat
  importKey :: "key_format \<Rightarrow> bytes \<Rightarrow> alg_params option \<Rightarrow> key_usage \<Rightarrow> error + 'k"
  subtle_sign :: "alg_params option \<Rightarrow> 'k \<Rightarrow> bytes \<Rightarrow> error + bytes"
  subtle_verify :: "alg_params option \<Rightarrow> 'k \<Rightarrow> bytes \<Rightarrow> bytes \<Rightarrow> error + bool"

text \<open>
  A comparison first converts the value to a primitive. A parsed object has no callable
  property of its own, so the conversion goes through the methods it inherits, unless a
  property \<open>toString\<close> of its own hides the inherited one: then no method gives a
  primitive and the conversion throws a \<open>TypeError\<close>. An array converts through the
  join of its elements, which converts each of them to a string and throws where one of
  them does.
\<close>

fun conversion_throws :: "json \<Rightarrow> bool" where
  "conversion_throws (JObject ps) = (js ''toString'' \<in> set (map fst ps))"
| "conversion_throws (JArray xs) = list_ex conversion_throws xs"
| "conversion_throws _ = False"

text \<open>
  The number that a value converts to when its conversion does not throw, \<open>None\<close> for
  \<open>NaN\<close>. An object converts through \<open>"[object Object]"\<close>, an array through the join of
  its elements with commas: no text with a comma is numeric, the empty text is 0, and a
  single element converts as its own text does (\<open>null\<close> as the empty text).
\<close>

fun number_value :: "'k platform \<Rightarrow> json \<Rightarrow> js_number option" where
  "number_value P JNull = Some (Num 0)"
| "number_value P (JBool b) = Some (Num (if b then 1 else 0))"
| "number_value P (JNumber n) = Some n"
| "number_value P (JString s) = StringToNumber P s"
| "number_value P (JObject ps) = None"
| "number_value P (JArray []) = Some (Num 0)"
| "number_value P (JArray [JBool b]) = None"
| "number_value P (JArray [x]) = number_value P x"
| "number_value P (JArray (x # y # zs)) = None"

text \<open>ToNumber of a parsed value: a \<open>TypeError\<close>, or the number. The conversion of an
  array nests as deep as the array does; the depth that an engine allows is not
  modelled.\<close>

definition ToNumber :: "'k platform \<Rightarrow> json \<Rightarrow> error + js_number option" where
  "ToNumber P v = (if conversion_throws v then Inl TypeError else Inr (number_value P v))"

text \<open>\<open>v > t\<close> and \<open>v <= t\<close> for a property value \<open>v\<close> and a number of seconds \<open>t\<close>:
  what is thrown, or the truth value, which is false when \<open>v\<close> is \<open>undefined\<close> or
  converts to \<open>NaN\<close>.\<close>

definition js_gt :: "'k platform \<Rightarrow> json option \<Rightarrow> int \<Rightarrow> error + bool" where
  "js_gt P p t =
     (case p of
        None \<Rightarrow> Inr False
      | Some v \<Rightarrow>
          (case ToNumber P v of
             Inl e \<Rightarrow> Inl e
           | Inr None \<Rightarrow> Inr False
           | Inr (Some n) \<Rightarrow> Inr (num_less (Num (of_int t)) n)))"

definition js_le :: "'k platform \<Rightarrow> json option \<Rightarrow> int \<Rightarrow> error + bool" where
  "js_le P p t =
     (case p of
        None \<Rightarrow> Inr False
      | Some v \<Rightarrow>
          (case ToNumber P v of
             Inl e \<Rightarrow> Inl e
           | Inr None \<Rightarrow> Inr False
           | Inr (Some n) \<Rightarrow> Inr (\<not> num_less (Num (of_int t)) n)))"

text \<open>The tests of lines 210 and 215, \<open>payload.nbf && payload.nbf > now\<close> and
  \<open>payload.exp && payload.exp <= now\<close>: the comparison is made for a truthy property
  only.\<close>

definition nbf_test :: "'k platform \<Rightarrow> json \<Rightarrow> int \<Rightarrow> error + bool" where
  "nbf_test P pl now =
     (if truthy_prop (get_claim pl (js ''nbf'')) then js_gt P (get_claim pl (js ''nbf'')) now
      else Inr False)"

definition exp_test :: "'k platform \<Rightarrow> json \<Rightarrow> int \<Rightarrow> error + bool" where
  "exp_test P pl now =
     (if truthy_prop (get_claim pl (js ''exp'')) then js_le P (get_claim pl (js ''exp'')) now
      else Inr False)"

text \<open>\<open>Math.floor(Date.now() / 1000)\<close> for a reading \<open>ms\<close> of \<open>Date.now()\<close>.\<close>

definition unix_seconds :: "int \<Rightarrow> int" where
  "unix_seconds ms = ms div 1000"

section \<open>The class \<open>Jwt\<close>\<close>

subsection \<open>The table \<open>algorithms\<close>\<close>

definition algorithms :: "(js_string \<times> alg_params) list" where
  "algorithms =
     [(js ''ES256'', \<lparr>name = ''ECDSA'', namedCurve = Some ''P-256'', hash = ''SHA-256''\<rparr>),
      (js ''ES384'', \<lparr>name = ''ECDSA'', namedCurve = Some ''P-384'', hash = ''SHA-384''\<rparr>),
      (js ''ES512'', \<lparr>name = ''ECDSA'', namedCurve = Some ''P-521'', hash = ''SHA-512''\<rparr>),
      (js ''HS256'', \<lparr>name = ''HMAC'', namedCurve = None, hash = ''SHA-256''\<rparr>),
      (js ''HS384'', \<lparr>name = ''HMAC'', namedCurve = None, hash = ''SHA-384''\<rparr>),
      (js ''HS512'', \<lparr>name = ''HMAC'', namedCurve = None, hash = ''SHA-512''\<rparr>),
      (js ''RS256'', \<lparr>name = ''RSASSA-PKCS1-v1_5'', namedCurve = None, hash = ''SHA-256''\<rparr>),
      (js ''RS384'', \<lparr>name = ''RSASSA-PKCS1-v1_5'', namedCurve = None, hash = ''SHA-384''\<rparr>),
      (js ''RS512'', \<lparr>name = ''RSASSA-PKCS1-v1_5'', namedCurve = None, hash = ''SHA-512''\<rparr>)]"

text \<open>
  \<open>this.algorithms[k]\<close> reads an ordinary object, so a key that the table lacks still
  finds the members that every object inherits; they are all truthy and pass the test
  \<open>if (!algorithm)\<close>.
\<close>

definition object_prototype_keys :: "js_string list" where
  "object_prototype_keys =
     map js [''constructor'', ''__proto__'', ''hasOwnProperty'', ''isPrototypeOf'',
       ''propertyIsEnumerable'', ''toLocaleString'', ''toString'', ''valueOf'',
       ''__defineGetter__'', ''__defineSetter__'', ''__lookupGetter__'', ''__lookupSetter__'']"

datatype alg_lookup = Registered alg_params | Inherited | NotFound

definition lookup_algorithm :: "js_string \<Rightarrow> alg_lookup" where
  "lookup_algorithm k =
     (case map_of algorithms k of
        Some a \<Rightarrow> Registered a
      | None \<Rightarrow> if k \<in> set object_prototype_keys then Inherited else NotFound)"

definition subtle_algorithm :: "alg_lookup \<Rightarrow> alg_params option" where
  "subtle_algorithm l = (case l of Registered a \<Rightarrow> Some a | _ \<Rightarrow> None)"

subsection \<open>\<open>_utf8ToUint8Array\<close>, \<open>_str2ab\<close>, \<open>_decodePayload\<close>\<close>

definition utf8ToUint8Array :: "js_string \<Rightarrow> error + bytes" where
  "utf8ToUint8Array str =
     (case encode_utf8 str of
        Inl e \<Rightarrow> Inl e
      | Inr octets \<Rightarrow>
          (case btoa (fromCharCode octets) of Inl e \<Rightarrow> Inl e | Inr b64 \<Rightarrow> Base64URL_parse b64))"

definition str2ab :: "js_string \<Rightarrow> error + bytes" where
  "str2ab str = (case atob str of Inl e \<Rightarrow> Inl e | Inr s \<Rightarrow> Inr (charCodes s))"

text \<open>The \<open>switch\<close> on \<open>raw.length % 4\<close> throws outside the \<open>try\<close>; everything thrown
  inside it becomes \<open>null\<close>.\<close>

definition decodePayload :: "'k platform \<Rightarrow> js_string \<Rightarrow> error + json" where
  "decodePayload P raw =
     (if length raw mod 4 \<notin> {0, 2, 3} then Inl (Error ''Illegal base64url string!'')
      else
        (let padded =
               (if length raw mod 4 = 0 then raw
                else if length raw mod 4 = 2 then raw @ js ''==''
                else raw @ js ''='')
         in case atob padded of
              Inl e \<Rightarrow> Inr JNull
            | Inr bin \<Rightarrow>
                (case decode_utf8 bin of
                   Inl e \<Rightarrow> Inr JNull
                 | Inr txt \<Rightarrow> (case JSON_parse P txt of Inl e \<Rightarrow> Inr JNull | Inr v \<Rightarrow> Inr v))))"

subsection \<open>\<open>decode\<close>\<close>

record JwtData =
  header :: json
  payload :: json

text \<open>\<open>x.replace(/-/g, '+').replace(/_/g, '/')\<close>\<close>

definition to_base64 :: "js_string \<Rightarrow> js_string" where
  "to_base64 x = replace_all 0x5F 0x2F (replace_all 0x2D 0x2B x)"

text \<open>The header is decoded first. \<open>token.split('.')[1]\<close> is \<open>undefined\<close> when the token
  has no dot, and calling \<open>replace\<close> on it throws a \<open>TypeError\<close>.\<close>

definition decode :: "'k platform \<Rightarrow> js_string \<Rightarrow> error + JwtData" where
  "decode P token =
     (case split 0x2E token of
        [] \<Rightarrow> Inl TypeError
      | h # rest \<Rightarrow>
          (case decodePayload P (to_base64 h) of
             Inl e \<Rightarrow> Inl e
           | Inr hv \<Rightarrow>
               (case rest of
                  [] \<Rightarrow> Inl TypeError
                | p # _ \<Rightarrow>
                    (case decodePayload P (to_base64 p) of
                       Inl e \<Rightarrow> Inl e
                     | Inr pl \<Rightarrow> Inr \<lparr>header = hv, payload = pl\<rparr>))))"

subsection \<open>Key material\<close>

text \<open>
  \<open>s.replace(/-----BEGIN.*?-----/g, '')\<close> and the same with \<open>END\<close>: a match starts
  with the marker, runs over as few characters as possible, none of them a line
  terminator, and ends with five dashes. \<open>lazy_dashes\<close> returns what follows the match.
\<close>

definition is_line_terminator :: "16 word \<Rightarrow> bool" where
  "is_line_terminator c \<longleftrightarrow> c \<in> {0x0A, 0x0D, 0x2028, 0x2029}"

fun lazy_dashes :: "js_string \<Rightarrow> js_string option" where
  "lazy_dashes [] = None"
| "lazy_dashes (c # cs) =
     (if take 5 (c # cs) = js ''-----'' then Some (drop 5 (c # cs))
      else if is_line_terminator c then None
      else lazy_dashes cs)"

lemma lazy_dashes_shorter: "lazy_dashes s = Some r \<Longrightarrow> length r < length s"
  by (induction s) (auto split: if_splits)

function remove_armor :: "js_string \<Rightarrow> js_string \<Rightarrow> js_string" where
  "remove_armor marker [] = []"
| "remove_armor marker (c # cs) =
     (if take (length marker) (c # cs) = marker then
        (case lazy_dashes (drop (length marker) (c # cs)) of
           Some r \<Rightarrow> remove_armor marker r
         | None \<Rightarrow> c # remove_armor marker cs)
      else c # remove_armor marker cs)"
  by pat_completeness auto
termination
proof (relation "measure (\<lambda>(m, s). length s)")
  fix marker :: js_string and c cs r
  assume "lazy_dashes (drop (length marker) (c # cs)) = Some r"
  then have "length r < length (drop (length marker) (c # cs))"
    by (rule lazy_dashes_shorter)
  then show "((marker, r), (marker, c # cs)) \<in> measure (\<lambda>(m, s). length s)"
    by simp
qed simp_all

text \<open>Lines 166 to 172 of \<open>sign\<close> and 220 to 226 of \<open>verify\<close>, which differ in the format
  given to a PEM key only.\<close>

definition key_material :: "key_format \<Rightarrow> js_string \<Rightarrow> error + key_format \<times> bytes" where
  "key_material pem_format secret =
     (if take 10 secret = js ''-----BEGIN'' then
        (case str2ab (remove_spaces
                 (remove_armor (js ''-----END'') (remove_armor (js ''-----BEGIN'') secret))) of
           Inl e \<Rightarrow> Inl e
         | Inr keyData \<Rightarrow> Inr (pem_format, keyData))
      else
        (case utf8ToUint8Array secret of
           Inl e \<Rightarrow> Inl e
         | Inr keyData \<Rightarrow> Inr (Raw, keyData)))"

subsection \<open>\<open>verify\<close>\<close>

text \<open>
  The third argument: left out (the default parameter applies), an algorithm name, or
  an options object, of which each property may be absent.
\<close>

datatype verify_arg =
    NoVerifyOptions
  | VerifyAlgorithm js_string
  | VerifyOptions "js_string option" "bool option"

text \<open>Lines 187 to 191: the default parameter, the expansion of a name, and the merge
  \<open>{ algorithm: HS256, throwError: false, ...options }\<close>. The result is the pair of
  \<open>options.algorithm\<close> and \<open>options.throwError\<close>.\<close>

definition verify_options :: "verify_arg \<Rightarrow> js_string \<times> bool" where
  "verify_options arg =
     (let options =
            (case arg of
               NoVerifyOptions \<Rightarrow> (Some (js ''ES256''), Some False)
             | VerifyAlgorithm a \<Rightarrow> (Some a, Some False)
             | VerifyOptions a t \<Rightarrow> (a, t))
      in ((case fst options of None \<Rightarrow> js ''HS256'' | Some a \<Rightarrow> a),
          (case snd options of None \<Rightarrow> False | Some t \<Rightarrow> t)))"

text \<open>The outcome of a failed validation: thrown, or the value \<open>false\<close>.\<close>

definition outcome :: "bool \<Rightarrow> string \<Rightarrow> error + bool" where
  "outcome throwError tag = (if throwError then Inl (Thrown tag) else Inr False)"

text \<open>
  \<open>t_nbf\<close> and \<open>t_exp\<close> are the readings of \<open>Date.now()\<close> in the tests of \<open>nbf\<close> and of
  \<open>exp\<close>. The token and the secret are strings and the algorithm, when given, is a
  string, as the parameter types say, so the three \<open>typeof\<close> tests do not fire.
\<close>

definition verify ::
  "'k platform \<Rightarrow> int \<Rightarrow> int \<Rightarrow> js_string \<Rightarrow> js_string \<Rightarrow> verify_arg \<Rightarrow> error + bool" where
  "verify P t_nbf t_exp token secret arg =
     (let (algorithm_name, throwError) = verify_options arg;
          tokenParts = split 0x2E token
      in if length tokenParts \<noteq> 3 then Inl (Error ''token must consist of 3 parts'')
         else
           (case lookup_algorithm algorithm_name of
              NotFound \<Rightarrow> Inl (Error ''algorithm not found'')
            | found \<Rightarrow>
                (case decode P token of
                   Inl e \<Rightarrow> Inl e
                 | Inr d \<Rightarrow>
                     if \<not> truthy (payload d) then outcome throwError ''PARSE_ERROR''
                     else
                       (case nbf_test P (payload d) (unix_seconds t_nbf) of
                          Inl e \<Rightarrow> Inl e
                        | Inr not_yet \<Rightarrow>
                       if not_yet then outcome throwError ''NOT_YET_VALID''
                       else
                       (case exp_test P (payload d) (unix_seconds t_exp) of
                          Inl e \<Rightarrow> Inl e
                        | Inr expired \<Rightarrow>
                       if expired then outcome throwError ''EXPIRED''
                       else
                       (case key_material Spki secret of
                          Inl e \<Rightarrow> Inl e
                        | Inr (keyFormat, keyData) \<Rightarrow>
                            (case importKey P keyFormat keyData (subtle_algorithm found) Verify of
                               Inl e \<Rightarrow> Inl e
                             | Inr key \<Rightarrow>
                                 (case Base64URL_parse (tokenParts ! 2) of
                                    Inl e \<Rightarrow> Inl e
                                  | Inr signature \<Rightarrow>
                                      (case utf8ToUint8Array
                                              (tokenParts ! 0 @ js ''.'' @ tokenParts ! 1) of
                                         Inl e \<Rightarrow> Inl e
                                       | Inr data \<Rightarrow>
                                           subtle_verify P (subtle_algorithm found) key
                                             signature data)))))))))"

subsection \<open>\<open>sign\<close>\<close>

datatype sign_arg =
    NoSignOptions
  | SignAlgorithm js_string
  | SignOptions "js_string option" "json_object option"

text \<open>Lines 149 to 153; the result is the pair of \<open>options.algorithm\<close> and
  \<open>options.header\<close>.\<close>

definition sign_options :: "sign_arg \<Rightarrow> js_string \<times> json_object" where
  "sign_options arg =
     (let options =
            (case arg of
               NoSignOptions \<Rightarrow> (Some (js ''HS256''), Some [(js ''typ'', JString (js ''JWT''))])
             | SignAlgorithm a \<Rightarrow> (Some a, Some [(js ''typ'', JString (js ''JWT''))])
             | SignOptions a h \<Rightarrow> (a, h))
      in ((case fst options of None \<Rightarrow> js ''HS256'' | Some a \<Rightarrow> a),
          (case snd options of None \<Rightarrow> [(js ''typ'', JString (js ''JWT''))] | Some h \<Rightarrow> h)))"

text \<open>Lines 164 to 175, after \<open>payload.iat\<close> has been set: the token, or what is thrown.\<close>

definition sign_token ::
  "'k platform \<Rightarrow> alg_params option \<Rightarrow> js_string \<Rightarrow> json_object \<Rightarrow> json_object \<Rightarrow> js_string
   \<Rightarrow> error + js_string" where
  "sign_token P algorithm algorithm_name hdr pl secret =
     (let payloadAsJSON = JSON_stringify P (JObject pl) in
      case utf8ToUint8Array
             (JSON_stringify P (JObject (set_prop (js ''alg'') (JString algorithm_name) hdr))) of
        Inl e \<Rightarrow> Inl e
      | Inr hb \<Rightarrow>
      (case Base64URL_stringify (max_arguments P) hb of
        Inl e \<Rightarrow> Inl e
      | Inr headerPart \<Rightarrow>
      (case utf8ToUint8Array payloadAsJSON of
        Inl e \<Rightarrow> Inl e
      | Inr pb \<Rightarrow>
      (case Base64URL_stringify (max_arguments P) pb of
        Inl e \<Rightarrow> Inl e
      | Inr payloadPart \<Rightarrow>
      (let partialToken = headerPart @ js ''.'' @ payloadPart in
       case key_material Pkcs8 secret of
         Inl e \<Rightarrow> Inl e
       | Inr (keyFormat, keyData) \<Rightarrow>
       (case importKey P keyFormat keyData algorithm Sign of
         Inl e \<Rightarrow> Inl e
       | Inr key \<Rightarrow>
       (case utf8ToUint8Array partialToken of
         Inl e \<Rightarrow> Inl e
       | Inr data \<Rightarrow>
       (case subtle_sign P algorithm key data of
         Inl e \<Rightarrow> Inl e
       | Inr signature \<Rightarrow>
       (case Base64URL_stringify (max_arguments P) signature of
         Inl e \<Rightarrow> Inl e
       | Inr signaturePart \<Rightarrow> Inr (partialToken @ js ''.'' @ signaturePart))))))))))"

text \<open>
  \<open>sign\<close> returns the token, or what it throws, together with the caller's payload
  object as the call leaves it: \<open>payload.iat = ...\<close> writes to the object it was given.
  \<open>t\<close> is the reading of \<open>Date.now()\<close>. The payload is an object and the secret a string,
  as the parameter types say.
\<close>

definition sign ::
  "'k platform \<Rightarrow> int \<Rightarrow> json_object \<Rightarrow> js_string \<Rightarrow> sign_arg
   \<Rightarrow> (error + js_string) \<times> json_object" where
  "sign P t pl secret arg =
     (let (algorithm_name, hdr) = sign_options arg in
      case lookup_algorithm algorithm_name of
        NotFound \<Rightarrow> (Inl (Error ''algorithm not found''), pl)
      | found \<Rightarrow>
          (let pl' = set_prop (js ''iat'') (JNumber (Num (of_int (unix_seconds t)))) pl
           in (sign_token P (subtle_algorithm found) algorithm_name hdr pl' secret, pl')))"

section \<open>A reference platform\<close>

text \<open>
  The theorems below hold for every platform. To run the model on concrete tokens, the
  platform \<open>reference\<close> gives the builtins a definition: \<open>JSON.parse\<close> and
  \<open>JSON.stringify\<close> after ECMA-262, on numbers taken as exact decimals (rounding to
  the nearest double is not modelled, and a key that is an array index keeps its place
  in the text), the limit of 65536 arguments that JavaScriptCore puts on a call
  (other engines have other limits), and a stand-in for the HMAC of \<open>crypto.subtle\<close>,
  whose tag is not the real one.
\<close>

subsection \<open>\<open>JSON.parse\<close>\<close>

definition is_json_space :: "16 word \<Rightarrow> bool" where
  "is_json_space c \<longleftrightarrow> c \<in> {0x09, 0x0A, 0x0D, 0x20}"

definition is_digit :: "16 word \<Rightarrow> bool" where
  "is_digit c \<longleftrightarrow> 0x30 \<le> c \<and> c \<le> 0x39"

definition digits_value :: "js_string \<Rightarrow> nat" where
  "digits_value ds = foldl (\<lambda>v c. v * 10 + (unat c - 48)) 0 ds"

definition hex_value :: "16 word \<Rightarrow> nat option" where
  "hex_value c =
     (if is_digit c then Some (unat c - 48)
      else if 0x41 \<le> c \<and> c \<le> 0x46 then Some (unat c - 55)
      else if 0x61 \<le> c \<and> c \<le> 0x66 then Some (unat c - 87)
      else None)"

text \<open>The character after a backslash, other than \<open>u\<close>.\<close>

definition escaped_char :: "16 word \<Rightarrow> 16 word option" where
  "escaped_char e =
     (if e = 0x22 \<or> e = 0x5C \<or> e = 0x2F then Some e
      else if e = 0x62 then Some 0x08
      else if e = 0x66 then Some 0x0C
      else if e = 0x6E then Some 0x0A
      else if e = 0x72 then Some 0x0D
      else if e = 0x74 then Some 0x09
      else None)"

text \<open>A string after its opening quote: the characters and the rest of the text.\<close>

fun json_string :: "js_string \<Rightarrow> (js_string \<times> js_string) option" where
  "json_string [] = None"
| "json_string (c # cs) =
     (if c = 0x22 then Some ([], cs)
      else if c < 0x20 then None
      else if c = 0x5C then
        (case cs of
           [] \<Rightarrow> None
         | e # r \<Rightarrow>
             if e = 0x75 then
               (case map hex_value (take 4 r) of
                  [Some h1, Some h2, Some h3, Some h4] \<Rightarrow>
                    (case json_string (drop 4 r) of
                       None \<Rightarrow> None
                     | Some (s, rest) \<Rightarrow>
                         Some (of_nat (((h1 * 16 + h2) * 16 + h3) * 16 + h4) # s, rest))
                | _ \<Rightarrow> None)
             else
               (case escaped_char e of
                  None \<Rightarrow> None
                | Some x \<Rightarrow>
                    (case json_string r of None \<Rightarrow> None | Some (s, rest) \<Rightarrow> Some (x # s, rest))))
      else (case json_string cs of None \<Rightarrow> None | Some (s, rest) \<Rightarrow> Some (c # s, rest)))"

text \<open>A magnitude that rounds beyond the largest double is an infinity, and one that
  rounds below the smallest is 0.\<close>

definition to_number :: "rat \<Rightarrow> js_number" where
  "to_number r =
     (if 2 ^ 1024 - 2 ^ 970 \<le> r then PosInfinity
      else if r \<le> - (2 ^ 1024 - 2 ^ 970) then NegInfinity
      else if \<bar>r\<bar> * 2 ^ 1075 \<le> 1 then Num 0
      else Num r)"

definition scale10 :: "rat \<Rightarrow> int \<Rightarrow> rat" where
  "scale10 r e = (if 0 \<le> e then r * 10 ^ nat e else r / 10 ^ nat (- e))"

text \<open>An optional part of a number: \<open>.\<close> and digits, or an exponent. Each scanner
  returns \<open>None\<close> when the part is begun and not finished.\<close>

definition json_fraction :: "js_string \<Rightarrow> (js_string \<times> js_string) option" where
  "json_fraction s =
     (case s of
        [] \<Rightarrow> Some ([], s)
      | c # r \<Rightarrow>
          if c = 0x2E then
            (if takeWhile is_digit r = [] then None
             else Some (takeWhile is_digit r, dropWhile is_digit r))
          else Some ([], s))"

definition json_exponent :: "js_string \<Rightarrow> (int \<times> js_string) option" where
  "json_exponent s =
     (case s of
        [] \<Rightarrow> Some (0, s)
      | c # r \<Rightarrow>
          if c = 0x65 \<or> c = 0x45 then
            (let negative = (r \<noteq> [] \<and> hd r = 0x2D);
                 r1 = (if r \<noteq> [] \<and> (hd r = 0x2D \<or> hd r = 0x2B) then tl r else r)
             in if takeWhile is_digit r1 = [] then None
                else Some ((if negative then - 1 else 1) * int (digits_value (takeWhile is_digit r1)),
                           dropWhile is_digit r1))
          else Some (0, s))"

definition json_number :: "js_string \<Rightarrow> (js_number \<times> js_string) option" where
  "json_number s =
     (let negative = (s \<noteq> [] \<and> hd s = 0x2D);
          s1 = (if negative then tl s else s);
          ip = takeWhile is_digit s1
      in if ip = [] \<or> (1 < length ip \<and> hd ip = 0x30) then None
         else
           (case json_fraction (dropWhile is_digit s1) of
              None \<Rightarrow> None
            | Some (fp, s2) \<Rightarrow>
                (case json_exponent s2 of
                   None \<Rightarrow> None
                 | Some (e, s3) \<Rightarrow>
                     Some (to_number
                             ((if negative then - 1 else 1)
                              * scale10 (of_nat (digits_value (ip @ fp))) (e - int (length fp))),
                           s3))))"

text \<open>
  A value, the elements of an array after \<open>[\<close> or a comma, and the members of an object
  after \<open>{\<close> or a comma. The first argument bounds the number of nested calls;
  \<open>JSON_parse_ref\<close> starts with more than the text can use. A repeated key keeps its
  first place and takes the last value.
\<close>

fun json_value :: "nat \<Rightarrow> js_string \<Rightarrow> (json \<times> js_string) option"
  and json_elements :: "nat \<Rightarrow> json list \<Rightarrow> js_string \<Rightarrow> (json \<times> js_string) option"
  and json_members :: "nat \<Rightarrow> json_object \<Rightarrow> js_string \<Rightarrow> (json \<times> js_string) option"
where
  "json_value 0 s = None"
| "json_value (Suc n) s =
     (case dropWhile is_json_space s of
        [] \<Rightarrow> None
      | c # r \<Rightarrow>
          if c = 0x7B then
            (case dropWhile is_json_space r of
               [] \<Rightarrow> None
             | d # r' \<Rightarrow> if d = 0x7D then Some (JObject [], r') else json_members n [] (d # r'))
          else if c = 0x5B then
            (case dropWhile is_json_space r of
               [] \<Rightarrow> None
             | d # r' \<Rightarrow> if d = 0x5D then Some (JArray [], r') else json_elements n [] (d # r'))
          else if c = 0x22 then
            (case json_string r of None \<Rightarrow> None | Some (str, r') \<Rightarrow> Some (JString str, r'))
          else if take 4 (c # r) = js ''null'' then Some (JNull, drop 4 (c # r))
          else if take 4 (c # r) = js ''true'' then Some (JBool True, drop 4 (c # r))
          else if take 5 (c # r) = js ''false'' then Some (JBool False, drop 5 (c # r))
          else (case json_number (c # r) of None \<Rightarrow> None | Some (x, r') \<Rightarrow> Some (JNumber x, r')))"
| "json_elements 0 acc s = None"
| "json_elements (Suc n) acc s =
     (case json_value n s of
        None \<Rightarrow> None
      | Some (v, r) \<Rightarrow>
          (case dropWhile is_json_space r of
             [] \<Rightarrow> None
           | c # r' \<Rightarrow>
               if c = 0x2C then json_elements n (acc @ [v]) r'
               else if c = 0x5D then Some (JArray (acc @ [v]), r')
               else None))"
| "json_members 0 acc s = None"
| "json_members (Suc n) acc s =
     (case dropWhile is_json_space s of
        [] \<Rightarrow> None
      | q # r \<Rightarrow>
          if q \<noteq> 0x22 then None
          else
            (case json_string r of
               None \<Rightarrow> None
             | Some (k, r1) \<Rightarrow>
                 (case dropWhile is_json_space r1 of
                    [] \<Rightarrow> None
                  | c # r2 \<Rightarrow>
                      if c \<noteq> 0x3A then None
                      else
                        (case json_value n r2 of
                           None \<Rightarrow> None
                         | Some (v, r3) \<Rightarrow>
                             (case dropWhile is_json_space r3 of
                                [] \<Rightarrow> None
                              | d # r4 \<Rightarrow>
                                  if d = 0x2C then json_members n (set_prop k v acc) r4
                                  else if d = 0x7D then Some (JObject (set_prop k v acc), r4)
                                  else None)))))"

definition JSON_parse_ref :: "js_string \<Rightarrow> error + json" where
  "JSON_parse_ref s =
     (case json_value (2 * length s + 2) s of
        None \<Rightarrow> Inl SyntaxError
      | Some (v, r) \<Rightarrow> if dropWhile is_json_space r = [] then Inr v else Inl SyntaxError)"

subsection \<open>\<open>JSON.stringify\<close>\<close>

fun decimal_digits :: "nat \<Rightarrow> js_string" where
  "decimal_digits n =
     (if n < 10 then [of_nat (48 + n)] else decimal_digits (n div 10) @ [of_nat (48 + n mod 10)])"

declare decimal_digits.simps [simp del]

definition hex_digit :: "nat \<Rightarrow> 16 word" where
  "hex_digit d = (if d < 10 then of_nat (48 + d) else of_nat (87 + d))"

definition unicode_escape :: "16 word \<Rightarrow> js_string" where
  "unicode_escape c =
     [0x5C, 0x75, hex_digit (unat c div 4096), hex_digit (unat c div 256 mod 16),
                  hex_digit (unat c div 16 mod 16), hex_digit (unat c mod 16)]"

definition quote_char :: "16 word \<Rightarrow> js_string" where
  "quote_char c =
     (if c = 0x08 then [0x5C, 0x62]
      else if c = 0x09 then [0x5C, 0x74]
      else if c = 0x0A then [0x5C, 0x6E]
      else if c = 0x0C then [0x5C, 0x66]
      else if c = 0x0D then [0x5C, 0x72]
      else if c = 0x22 then [0x5C, 0x22]
      else if c = 0x5C then [0x5C, 0x5C]
      else if c < 0x20 then unicode_escape c
      else [c])"

text \<open>A surrogate is written as it is in a pair and escaped when it is alone.\<close>

fun quote_body :: "js_string \<Rightarrow> js_string" where
  "quote_body [] = []"
| "quote_body (c # cs) =
     (if is_high_surrogate c then
        (case cs of
           [] \<Rightarrow> unicode_escape c
         | k # ks \<Rightarrow>
             if is_low_surrogate k then c # k # quote_body ks
             else unicode_escape c @ quote_body cs)
      else if is_low_surrogate c then unicode_escape c @ quote_body cs
      else quote_char c @ quote_body cs)"

definition quote :: "js_string \<Rightarrow> js_string" where
  "quote s = [0x22] @ quote_body s @ [0x22]"

text \<open>
  Number::toString for a positive decimal \<open>s * 10 ^ x\<close> with \<open>s\<close> not a multiple of 10:
  \<open>k\<close> digits, the decimal point after the first \<open>n = k + x\<close> of them.
\<close>

definition decimal_text :: "nat \<Rightarrow> int \<Rightarrow> js_string" where
  "decimal_text s x =
     (let ds = decimal_digits s; k = int (length ds); n = k + x
      in if k \<le> n \<and> n \<le> 21 then ds @ replicate (nat (n - k)) 0x30
         else if 0 < n \<and> n \<le> 21 then take (nat n) ds @ js ''.'' @ drop (nat n) ds
         else if - 6 < n \<and> n \<le> 0 then js ''0.'' @ replicate (nat (- n)) 0x30 @ ds
         else
           (if k = 1 then ds else take 1 ds @ js ''.'' @ drop 1 ds)
           @ js ''e'' @ (if 0 \<le> n - 1 then js ''+'' else js ''-'')
           @ decimal_digits (nat \<bar>n - 1\<bar>))"

text \<open>Writing a positive rational \<open>p / q\<close> as \<open>s * 10 ^ x\<close>: with \<open>q\<close> a product of
  \<open>a\<close> twos and \<open>b\<close> fives, \<open>e\<close> the larger of \<open>a\<close> and \<open>b\<close> decimal places make it
  whole; the zeros at the end of a whole number go to the exponent.\<close>

fun count_factor :: "nat \<Rightarrow> nat \<Rightarrow> nat" where
  "count_factor d q =
     (if 1 < d \<and> 0 < q \<and> q mod d = 0 then Suc (count_factor d (q div d)) else 0)"

fun strip_zeros :: "nat \<Rightarrow> int \<Rightarrow> nat \<times> int" where
  "strip_zeros s x =
     (if 0 < s \<and> s mod 10 = 0 then strip_zeros (s div 10) (x + 1) else (s, x))"

declare count_factor.simps [simp del] strip_zeros.simps [simp del]

definition to_decimal :: "nat \<Rightarrow> nat \<Rightarrow> (nat \<times> int) option" where
  "to_decimal p q =
     (let e = max (count_factor 2 q) (count_factor 5 q)
      in if q dvd p * 10 ^ e then Some (strip_zeros (p * 10 ^ e div q) (- int e)) else None)"

definition number_text :: "js_number \<Rightarrow> js_string" where
  "number_text n =
     (case n of
        PosInfinity \<Rightarrow> js ''null''
      | NegInfinity \<Rightarrow> js ''null''
      | Num r \<Rightarrow>
          if r = 0 then js ''0''
          else
            (case to_decimal (nat (fst (quotient_of \<bar>r\<bar>))) (nat (snd (quotient_of \<bar>r\<bar>))) of
               None \<Rightarrow> js ''null''
             | Some (s, x) \<Rightarrow> (if r < 0 then js ''-'' else []) @ decimal_text s x))"

fun join_commas :: "js_string list \<Rightarrow> js_string" where
  "join_commas [] = []"
| "join_commas [x] = x"
| "join_commas (x # y # zs) = x @ js '','' @ join_commas (y # zs)"

fun stringify :: "json \<Rightarrow> js_string" where
  "stringify JNull = js ''null''"
| "stringify (JBool b) = (if b then js ''true'' else js ''false'')"
| "stringify (JNumber n) = number_text n"
| "stringify (JString s) = quote s"
| "stringify (JArray xs) = js ''['' @ join_commas (map stringify xs) @ js '']''"
| "stringify (JObject ps) =
     js ''{'' @ join_commas (map (\<lambda>(k, v). quote k @ js '':'' @ stringify v) ps) @ js ''}''"

subsection \<open>The stand-in for \<open>crypto.subtle\<close>\<close>

text \<open>
  The reference platform imports raw, non-empty HMAC keys and nothing else. Its tag is
  two bytes, the sums of the key and of the data: it shows where key and data go, and is
  no message authentication code.
\<close>

record key_handle =
  key_bytes :: bytes
  key_algorithm :: alg_params
  key_use :: key_usage

definition importKey_ref ::
  "key_format \<Rightarrow> bytes \<Rightarrow> alg_params option \<Rightarrow> key_usage \<Rightarrow> error + key_handle" where
  "importKey_ref format keyData algorithm usage =
     (case algorithm of
        None \<Rightarrow> Inl TypeError
      | Some a \<Rightarrow>
          if name a = ''HMAC'' \<and> format = Raw \<and> keyData \<noteq> []
          then Inr \<lparr>key_bytes = keyData, key_algorithm = a, key_use = usage\<rparr>
          else Inl (CryptoError ''DataError''))"

definition tag_ref :: "bytes \<Rightarrow> bytes \<Rightarrow> bytes" where
  "tag_ref k d = [sum_list k, sum_list d]"

definition sign_ref :: "alg_params option \<Rightarrow> key_handle \<Rightarrow> bytes \<Rightarrow> error + bytes" where
  "sign_ref algorithm key d =
     (if algorithm = Some (key_algorithm key) \<and> key_use key = Sign
      then Inr (tag_ref (key_bytes key) d)
      else Inl (CryptoError ''InvalidAccessError''))"

definition verify_ref ::
  "alg_params option \<Rightarrow> key_handle \<Rightarrow> bytes \<Rightarrow> bytes \<Rightarrow> error + bool" where
  "verify_ref algorithm key signature d =
     (if algorithm = Some (key_algorithm key) \<and> key_use key = Verify
      then Inr (signature = tag_ref (key_bytes key) d)
      else Inl (CryptoError ''InvalidAccessError''))"

text \<open>
  The conversion of a string to a number (StringToNumber): spaces around the text are
  dropped, the empty text is 0, and the text is a binary, octal or hexadecimal integer
  with its prefix, or a decimal with an optional sign, which may be \<open>Infinity\<close>, may
  lack the digits before or after the point, and may have an exponent.
\<close>

definition radix_literal :: "js_string \<Rightarrow> js_number option" where
  "radix_literal s =
     (let base =
            (if take 2 s = js ''0x'' \<or> take 2 s = js ''0X'' then 16
             else if take 2 s = js ''0o'' \<or> take 2 s = js ''0O'' then 8
             else if take 2 s = js ''0b'' \<or> take 2 s = js ''0B'' then 2
             else 0);
          ds = map hex_value (drop 2 s)
      in if base = 0 \<or> ds = []
            \<or> \<not> list_all (\<lambda>d. case d of None \<Rightarrow> False | Some v \<Rightarrow> v < base) ds
         then None
         else Some (to_number
                 (of_nat (foldl (\<lambda>v d. v * base + (case d of None \<Rightarrow> 0 | Some x \<Rightarrow> x)) 0 ds))))"

definition string_decimal :: "js_string \<Rightarrow> js_number option" where
  "string_decimal s =
     (if s = js ''Infinity'' then Some PosInfinity
      else
        (let ip = takeWhile is_digit s;
             s1 = dropWhile is_digit s;
             point = (s1 \<noteq> [] \<and> hd s1 = 0x2E);
             fp = (if point then takeWhile is_digit (tl s1) else []);
             s2 = (if point then dropWhile is_digit (tl s1) else s1)
         in if ip = [] \<and> fp = [] then None
            else
              (case json_exponent s2 of
                 None \<Rightarrow> None
               | Some (e, s3) \<Rightarrow>
                   if s3 = []
                   then Some (to_number
                                (scale10 (of_nat (digits_value (ip @ fp))) (e - int (length fp))))
                   else None)))"

fun negate :: "js_number \<Rightarrow> js_number" where
  "negate (Num r) = Num (- r)"
| "negate PosInfinity = NegInfinity"
| "negate NegInfinity = PosInfinity"

definition StringToNumber_ref :: "js_string \<Rightarrow> js_number option" where
  "StringToNumber_ref s =
     (let t = rev (dropWhile is_regex_space (rev (dropWhile is_regex_space s))) in
      if t = [] then Some (Num 0)
      else
        (case radix_literal t of
           Some n \<Rightarrow> Some n
         | None \<Rightarrow>
             if hd t = 0x2D then map_option negate (string_decimal (tl t))
             else if hd t = 0x2B then string_decimal (tl t)
             else string_decimal t))"

definition reference :: "key_handle platform" where
  "reference =
     \<lparr>JSON_parse = JSON_parse_ref, JSON_stringify = stringify,
      StringToNumber = StringToNumber_ref, max_arguments = 65536, importKey = importKey_ref,
      subtle_sign = sign_ref, subtle_verify = verify_ref\<rparr>"

section \<open>Notions of the specification\<close>

text \<open>
  What the specification calls the decoded value of a segment: the parsed JSON value, or
  \<open>null\<close> on any parse failure (bad base64, invalid UTF-8, invalid JSON). The segment is
  brought back to the base64 alphabet and padded to a multiple of 4.
\<close>

definition parsed_or_null :: "'k platform \<Rightarrow> js_string \<Rightarrow> json" where
  "parsed_or_null P seg =
     (case atob (to_base64 seg @ replicate ((4 - length seg mod 4) mod 4) 0x3D) of
        Inl e \<Rightarrow> JNull
      | Inr bin \<Rightarrow>
          (case decode_utf8 bin of
             Inl e \<Rightarrow> JNull
           | Inr txt \<Rightarrow> (case JSON_parse P txt of Inl e \<Rightarrow> JNull | Inr v \<Rightarrow> v)))"

text \<open>The falsy JSON values: \<open>null\<close>, \<open>false\<close>, \<open>0\<close> and the empty string.\<close>

definition falsy_values :: "json set" where
  "falsy_values = {JNull, JBool False, JNumber (Num 0), JString []}"

text \<open>The primitive JSON values: everything but arrays and objects.\<close>

fun is_primitive :: "json \<Rightarrow> bool" where
  "is_primitive (JArray xs) = False"
| "is_primitive (JObject ps) = False"
| "is_primitive _ = True"

section \<open>Properties of the base64 codec\<close>

lemma unat_b64_char:
  "i < 64 \<Longrightarrow> unat (b64_char i) =
     (if i < 26 then 65 + i else if i < 52 then 71 + i else if i < 62 then i - 4
      else if i = 62 then 43 else 47)"
  unfolding b64_char_def by (simp add: unat_of_nat del: of_nat_add of_nat_diff)

lemma b64_index_char: "i < 64 \<Longrightarrow> b64_index (b64_char i) = i"
  by (simp add: b64_index_def word_le_nat_alt unat_b64_char word_unat_eq_iff) arith

lemma is_b64_char_char: "i < 64 \<Longrightarrow> is_b64_char (b64_char i)"
  by (simp add: is_b64_char_def word_le_nat_alt unat_b64_char word_unat_eq_iff) arith

lemma is_b64_char_unat:
  "is_b64_char c \<longleftrightarrow> unat c \<in> {65..90} \<union> {97..122} \<union> {48..57} \<union> {43, 47}"
  by (auto simp add: is_b64_char_def word_le_nat_alt word_unat_eq_iff)

lemma b64_char_not_pad: "is_b64_char c \<Longrightarrow> c \<noteq> 0x3D"
  by (auto simp add: is_b64_char_unat word_unat_eq_iff)

lemma is_regex_space_unat:
  "is_regex_space c \<Longrightarrow> unat c < 43 \<or> 122 < unat c"
  unfolding is_regex_space_def by (auto simp add: word_le_nat_alt)

lemma is_ascii_whitespace_unat:
  "is_ascii_whitespace c \<Longrightarrow> unat c < 43"
  unfolding is_ascii_whitespace_def by auto

lemma b64_char_not_space: "is_b64_char c \<Longrightarrow> \<not> is_regex_space c \<and> \<not> is_ascii_whitespace c"
  using is_regex_space_unat [of c] is_ascii_whitespace_unat [of c]
  by (auto simp add: is_b64_char_unat)

lemma unat_byte_less: "unat (a :: 8 word) < 256"
  using unsigned_less [of a, where ?'a = nat] by simp

lemma sextets_less: "s \<in> set (sextets bs) \<Longrightarrow> s < 64"
proof (induction bs arbitrary: s rule: sextets.induct)
  case (1 a b c r)
  have "unat a < 256" "unat b < 256" "unat c < 256" by (rule unat_byte_less)+
  with 1 show ?case by auto
next
  case (2 a b)
  have "unat a < 256" "unat b < 256" by (rule unat_byte_less)+
  with 2 show ?case by auto
next
  case (3 a)
  have "unat a < 256" by (rule unat_byte_less)
  with 3 show ?case by auto
qed simp

lemma length_sextets: "length (sextets bs) mod 4 \<noteq> 1"
  by (induction bs rule: sextets.induct) auto

lemma join_hi: "m < 16 \<Longrightarrow> (k * 16 + m) div 16 = (k::nat)" by simp
lemma join_lo: "m < 16 \<Longrightarrow> (k * 16 + m) mod 16 = (m::nat)" by simp
lemma join_hi4: "m < 4 \<Longrightarrow> (k * 4 + m) div 4 = (k::nat)" by simp
lemma join_lo4: "m < 4 \<Longrightarrow> (k * 4 + m) mod 4 = (m::nat)" by simp

lemma sextet_join1:
  "b < 256 \<Longrightarrow> a div 4 * 4 + (a mod 4 * 16 + b div 16) div 16 = (a::nat)"
proof -
  assume "b < 256"
  then have "b div 16 < 16" by simp
  then show ?thesis by (simp add: join_hi)
qed

lemma sextet_join2:
  "b < 256 \<Longrightarrow> c < 256 \<Longrightarrow>
   (a mod 4 * 16 + b div 16) mod 16 * 16 + (b mod 16 * 4 + c div 64) div 4 = (b::nat)"
proof -
  assume "b < 256" "c < 256"
  then have "b div 16 < 16" "c div 64 < 4" by simp_all
  then show ?thesis by (simp add: join_lo join_hi4)
qed

lemma sextet_join3:
  "c < 256 \<Longrightarrow> (b mod 16 * 4 + c div 64) mod 4 * 64 + c mod 64 = (c::nat)"
proof -
  assume "c < 256"
  then have "c div 64 < 4" by simp
  then show ?thesis by (simp add: join_lo4)
qed

lemma b64_decode_sextets: "b64_decode (sextets bs) = bs"
proof (induction bs rule: sextets.induct)
  case (1 a b c r)
  note lt = unat_byte_less [of a] unat_byte_less [of b] unat_byte_less [of c]
  show ?case
    by (simp only: sextets.simps b64_decode.simps 1 of_nat_unat ucast_id
        sextet_join1 [OF lt(2)] sextet_join2 [OF lt(2) lt(3)] sextet_join3 [OF lt(3)])
next
  case (2 a b)
  note lt = unat_byte_less [of a] unat_byte_less [of b]
  have z: "(0::nat) < 256" by simp
  have e1: "unat a div 4 * 4 + (unat a mod 4 * 16 + unat b div 16) div 16 = unat a"
    by (rule sextet_join1 [OF lt(2)])
  have e2: "(unat a mod 4 * 16 + unat b div 16) mod 16 * 16 + unat b mod 16 * 4 div 4 = unat b"
    using sextet_join2 [OF lt(2) z, of "unat a"] by simp
  show ?case
    by (simp only: sextets.simps b64_decode.simps of_nat_unat ucast_id e1 e2)
next
  case (3 a)
  have z: "(0::nat) < 256" by simp
  have e1: "unat a div 4 * 4 + unat a mod 4 * 16 div 16 = unat a"
    using sextet_join1 [OF z, of "unat a"] by simp
  show ?case
    by (simp only: sextets.simps b64_decode.simps of_nat_unat ucast_id e1)
qed simp

lemma filter_pad_encode:
  "filter (\<lambda>c. c \<noteq> 0x3D) (b64_encode bs) = map b64_char (sextets bs)"
proof (induction bs rule: sextets.induct)
  case (1 a b c r)
  have "unat a < 256" "unat b < 256" "unat c < 256" by (rule unat_byte_less)+
  then have "unat a div 4 < 64" "unat a mod 4 * 16 + unat b div 16 < 64"
     "unat b mod 16 * 4 + unat c div 64 < 64" "unat c mod 64 < 64" by auto
  then show ?case using 1 by (simp add: b64_char_not_pad is_b64_char_char)
next
  case (2 a b)
  have "unat a < 256" "unat b < 256" by (rule unat_byte_less)+
  then have "unat a div 4 < 64" "unat a mod 4 * 16 + unat b div 16 < 64"
     "unat b mod 16 * 4 < 64" by auto
  then show ?case by (simp add: b64_char_not_pad is_b64_char_char)
next
  case (3 a)
  have "unat a < 256" by (rule unat_byte_less)
  then have "unat a div 4 < 64" "unat a mod 4 * 16  < 64" by auto
  then show ?case by (simp add: b64_char_not_pad is_b64_char_char)
qed simp


lemma sextets_b64: "list_all is_b64_char (map b64_char (sextets bs))"
  by (simp add: list_all_iff is_b64_char_char sextets_less)

lemma url_replace_char:
  assumes "is_b64_char c"
  shows "(let d = (if (if c = 0x2B then 0x2D else c) = 0x2F then 0x5F
                   else (if c = 0x2B then 0x2D else c));
              e = (if d = 0x2D then 0x2B else d)
          in if e = 0x5F then 0x2F else e) = c"
proof -
  have "c \<noteq> 0x2D" "c \<noteq> 0x5F"
    using assms by (auto simp add: is_b64_char_unat word_unat_eq_iff)
  then show ?thesis by (simp add: Let_def)
qed

lemma url_replace_inverse:
  "list_all is_b64_char xs \<Longrightarrow>
   replace_all 0x5F 0x2F (replace_all 0x2D 0x2B (replace_all 0x2F 0x5F (replace_all 0x2B 0x2D xs))) = xs"
proof (induction xs)
  case (Cons c xs)
  then have "is_b64_char c" by simp
  from url_replace_char [OF this] Cons show ?case
    by (simp add: replace_all_def Let_def)
qed (simp add: replace_all_def)

lemma remove_spaces_b64: "list_all is_b64_char xs \<Longrightarrow> remove_spaces xs = xs"
  by (simp add: remove_spaces_def list_all_iff b64_char_not_space)

lemma filter_ascii_b64:
  "list_all is_b64_char xs \<Longrightarrow> filter (\<lambda>c. \<not> is_ascii_whitespace c) xs = xs"
  by (simp add: list_all_iff b64_char_not_space)

lemma strip_padding_b64: "list_all is_b64_char xs \<Longrightarrow> strip_padding xs = xs"
proof (cases "xs = []")
  case False
  assume "list_all is_b64_char xs"
  with False have "is_b64_char (last xs)" by (simp add: list_all_iff)
  then have "last xs \<noteq> 0x3D" by (rule b64_char_not_pad)
  then show ?thesis by (simp add: strip_padding_def)
qed (simp add: strip_padding_def)

lemma unat_ucast_byte: "unat (ucast x :: 16 word) = unat x" for x :: "8 word"
  using unat_byte_less [of x] by (simp add: unsigned_ucast_eq take_bit_nat_eq_self)

lemma charCodes_fromCharCode: "charCodes (fromCharCode b) = b"
proof -
  have "ucast (ucast x :: 16 word) = x" for x :: "8 word"
    by (rule ucast_up_ucast_id) (simp add: is_up)
  then show ?thesis by (simp add: charCodes_def fromCharCode_def comp_def)
qed

lemma fromCharCode_le: "list_all (\<lambda>c. c \<le> 0xFF) (fromCharCode b)"
proof -
  have "(ucast x :: 16 word) \<le> 0xFF" for x :: "8 word"
    using unat_byte_less [of x] by (simp add: word_le_nat_alt unat_ucast_byte)
  then show ?thesis by (simp add: fromCharCode_def list_all_iff)
qed

lemma atob_sextets:
  "atob (map b64_char (sextets bs)) = Inr (fromCharCode bs)"
proof -
  let ?d = "map b64_char (sextets bs)"
  have b64: "list_all is_b64_char ?d" by (rule sextets_b64)
  have idx: "map b64_index ?d = sextets bs"
    by (simp add: comp_def b64_index_char sextets_less map_idI)
  have len: "length ?d mod 4 \<noteq> 1" using length_sextets [of bs] by simp
  show ?thesis
    unfolding atob_def using b64 idx len
    by (simp add: filter_ascii_b64 strip_padding_b64 b64_decode_sextets del: One_nat_def)
qed

text \<open>The round trip of the class \<open>Base64URL\<close>, for an array that the call of line 75
  accepts.\<close>

lemma Base64URL_parse_stringify:
  assumes "length b \<le> max_args"
  shows "\<exists>s. Base64URL_stringify max_args b = Inr s \<and> Base64URL_parse s = Inr b"
proof -
  let ?d = "map b64_char (sextets b)"
  let ?s = "replace_all 0x2F 0x5F (replace_all 0x2B 0x2D ?d)"
  have enc: "Base64URL_stringify max_args b = Inr ?s"
    using assms
    by (simp add: Base64URL_stringify_def btoa_def fromCharCode_le charCodes_fromCharCode
        filter_pad_encode)
  have "Base64URL_parse ?s = Inr b"
    unfolding Base64URL_parse_def
    by (simp add: url_replace_inverse sextets_b64 remove_spaces_b64 atob_sextets
        charCodes_fromCharCode)
  with enc show ?thesis by blast
qed

section \<open>The UTF-8 round trip\<close>
















section \<open>Properties of the token codec\<close>

lemma length_to_base64: "length (to_base64 s) = length s"
  by (simp add: to_base64_def replace_all_def)

lemma decodePayload_legal:
  "length seg mod 4 \<noteq> 1 \<Longrightarrow> decodePayload P (to_base64 seg) = Inr (parsed_or_null P seg)"
proof -
  assume "length seg mod 4 \<noteq> 1"
  then consider "length seg mod 4 = 0" | "length seg mod 4 = 2" | "length seg mod 4 = 3"
    by linarith
  then show ?thesis
  proof cases
    case 1 then show ?thesis
      by (simp add: decodePayload_def parsed_or_null_def length_to_base64 split: sum.splits)
  next
    case 2 then show ?thesis
      by (simp add: decodePayload_def parsed_or_null_def length_to_base64 js_def cu_def
          numeral_2_eq_2 split: sum.splits)
  next
    case 3 then show ?thesis
      by (simp add: decodePayload_def parsed_or_null_def length_to_base64 js_def cu_def
          split: sum.splits)
  qed
qed

lemma decodePayload_illegal:
  "length seg mod 4 = 1 \<Longrightarrow>
   decodePayload P (to_base64 seg) = Inl (Error ''Illegal base64url string!'')"
  by (simp add: decodePayload_def length_to_base64)

lemma falsy_iff: "\<not> truthy v \<longleftrightarrow> v \<in> falsy_values"
  by (cases v) (auto simp add: falsy_values_def)

lemma map_of_set_prop: "map_of (set_prop k v ps) = (map_of ps)(k \<mapsto> v)"
  by (induction ps) auto

text \<open>Decoding and the tests on the claims do not look at \<open>crypto.subtle\<close>.\<close>

lemma number_value_crypto:
  "number_value (P\<lparr>importKey := ik, subtle_verify := sv\<rparr>) v = number_value P v"
  by (induction P v rule: number_value.induct) simp_all

lemma ToNumber_crypto:
  "ToNumber (P\<lparr>importKey := ik, subtle_verify := sv\<rparr>) v = ToNumber P v"
  by (simp add: ToNumber_def number_value_crypto)

lemma decodePayload_crypto:
  "decodePayload (P\<lparr>importKey := ik, subtle_verify := sv\<rparr>) raw = decodePayload P raw"
  by (simp add: decodePayload_def Let_def split: sum.splits)

lemma decode_crypto:
  "decode (P\<lparr>importKey := ik, subtle_verify := sv\<rparr>) token = decode P token"
  by (simp add: decode_def decodePayload_crypto split: list.splits sum.splits)

lemma tests_crypto:
  "nbf_test (P\<lparr>importKey := ik, subtle_verify := sv\<rparr>) pl t = nbf_test P pl t"
  "exp_test (P\<lparr>importKey := ik, subtle_verify := sv\<rparr>) pl t = exp_test P pl t"
  by (simp_all add: nbf_test_def exp_test_def js_gt_def js_le_def ToNumber_crypto
      split: option.splits)

section \<open>Running the model\<close>

text \<open>The equations that evaluate the model on a concrete token.\<close>

lemma replicate_numeral: "replicate (numeral k) x = x # replicate (pred_numeral k) x"
  by (simp add: numeral_eq_Suc)

lemmas json_value_numeral =
  json_value.simps(2) [of "pred_numeral k", folded numeral_eq_Suc]
  json_elements.simps(2) [of "pred_numeral k", folded numeral_eq_Suc]
  json_members.simps(2) [of "pred_numeral k", folded numeral_eq_Suc] for k

lemmas reference_eval = js_def cu_def reference_def JSON_parse_ref_def json_value_numeral
  is_json_space_def is_digit_def json_number_def json_fraction_def json_exponent_def
  digits_value_def to_number_def scale10_def hex_value_def escaped_char_def
  importKey_ref_def sign_ref_def verify_ref_def tag_ref_def StringToNumber_ref_def
  radix_literal_def string_decimal_def

lemmas codec_eval = decode_def decodePayload_def to_base64_def replace_all_def atob_def btoa_def
  strip_padding_def is_ascii_whitespace_def is_b64_char_def b64_index_def b64_char_def
  fromCharCode_def charCodes_def sequence_length_def is_continuation_def code_point_def
  valid_code_point_def utf16_units_def remove_spaces_def is_regex_space_def
  Base64URL_parse_def Base64URL_stringify_def utf8ToUint8Array_def utf8_octets_def
  is_high_surrogate_def is_low_surrogate_def str2ab_def

lemmas verify_eval = verify_def verify_options_def lookup_algorithm_def algorithms_def
  object_prototype_keys_def subtle_algorithm_def key_material_def outcome_def
  truthy_prop_def nbf_test_def exp_test_def js_gt_def js_le_def ToNumber_def
  unix_seconds_def Let_def

lemmas sign_eval = sign_def sign_options_def sign_token_def lookup_algorithm_def algorithms_def
  object_prototype_keys_def subtle_algorithm_def key_material_def unix_seconds_def Let_def
  quote_def quote_char_def number_text_def to_decimal_def decimal_text_def
  count_factor.simps strip_zeros.simps decimal_digits.simps replicate_numeral

section \<open>A segment written by \<open>sign\<close> and read by \<open>decode\<close>\<close>
























section \<open>Claim C8: the Base64URL round trip\<close>

text \<open>
  C8 says that \<open>Base64URL.parse(Base64URL.stringify(b))\<close> is \<open>b\<close> for every byte
  sequence. \<open>stringify\<close> passes the bytes as the arguments of one call, and on an array
  longer than the engine's limit that call throws a \<open>RangeError\<close>: there is no string
  to parse. On the reference platform an array of 130000 bytes is too long. Below the
  limit the round trip holds (\<open>Base64URL_parse_stringify\<close>), with or without padding.
\<close>

theorem Base64URL_stringify_long_array:
  "Base64URL_stringify (max_arguments reference) (replicate 130000 0) = Inl RangeError"
  by (simp add: Base64URL_stringify_def reference_def)

section \<open>Claim C1: \<open>verify\<close> returns \<open>true\<close> only through the primitive\<close>



section \<open>Claim C2: what \<open>decode\<close> returns and when it throws\<close>

text \<open>
  C2 says that \<open>decode\<close> never throws and gives \<open>null\<close> for a segment of illegal length.
  The code throws there: \<open>_decodePayload\<close> raises \<open>Illegal base64url string!\<close> before its
  \<open>try\<close> block when the length of a segment leaves the remainder 1 modulo 4. The first
  token below has such a header. The second has no dot, and \<open>decode\<close> throws a
  \<open>TypeError\<close> on its missing second segment.
\<close>

theorem decode_throws_counterexample:
  "decode reference (js ''a.e30.a74'') = Inl (Error ''Illegal base64url string!'')
   \<and> decode reference (js ''e30'') = Inl TypeError"
  by (simp add: reference_eval codec_eval)

text \<open>
  C2, amended. For a token with at least two segments: when the first or the second
  segment has a length that leaves the remainder 1 modulo 4, \<open>decode\<close> throws
  \<open>Illegal base64url string!\<close>; otherwise it returns \<open>{header, payload}\<close> and each field
  is the parsed JSON value of its segment, or \<open>null\<close> on any parse failure (bad base64,
  invalid UTF-8, invalid JSON).
\<close>

theorem decode_outcome:
  "split 0x2E token = h # p # rest \<Longrightarrow>
   decode P token =
     (if length h mod 4 = 1 \<or> length p mod 4 = 1
      then Inl (Error ''Illegal base64url string!'')
      else Inr \<lparr>header = parsed_or_null P h, payload = parsed_or_null P p\<rparr>)"
proof (cases "length h mod 4 = 1")
  case True
  assume "split 0x2E token = h # p # rest"
  with True show ?thesis by (simp add: decode_def decodePayload_illegal)
next
  case False
  assume "split 0x2E token = h # p # rest"
  with False show ?thesis
    by (cases "length p mod 4 = 1")
       (simp_all add: decode_def decodePayload_legal decodePayload_illegal)
qed

text \<open>A header that parses and a payload that is not JSON (\<open>{}1\<close>).\<close>

theorem decode_outcome_witness:
  "split 0x2E (js ''e30.e30x.a74'') = js ''e30'' # js ''e30x'' # [js ''a74'']
   \<and> parsed_or_null reference (js ''e30'') = JObject []
   \<and> parsed_or_null reference (js ''e30x'') = JNull
   \<and> decode reference (js ''e30.e30x.a74'') = Inr \<lparr>header = JObject [], payload = JNull\<rparr>"
proof -
  have s: "split 0x2E (js ''e30.e30x.a74'') = js ''e30'' # js ''e30x'' # [js ''a74'']"
    by (simp add: js_def cu_def)
  have l: "length (js ''e30'') mod 4 \<noteq> 1" "length (js ''e30x'') mod 4 \<noteq> 1"
    by (simp_all add: js_def)
  have v: "parsed_or_null reference (js ''e30'') = JObject []"
          "parsed_or_null reference (js ''e30x'') = JNull"
    by (simp_all add: parsed_or_null_def reference_eval codec_eval)
  from decode_outcome [OF s, of reference] l v s show ?thesis by simp
qed

section \<open>Claim C3: the expiry test\<close>

text \<open>
  C3 says that every token whose payload has an \<open>exp\<close> not after the current time is
  EXPIRED. The code tests \<open>nbf\<close> first: the first token below has the payload
  \<open>{"nbf":9,"exp":1}\<close> and at second 5 the outcome is NOT_YET_VALID. And the test
  \<open>payload.exp && ...\<close> needs a truthy \<open>exp\<close>: the second token, which \<open>sign\<close> issues
  for the payload \<open>{"exp":0}\<close>, verifies as \<open>true\<close> at second 1.
\<close>

theorem verify_expired_counterexample:
  "verify reference 5000 5000 (js ''e30.eyJuYmYiOjksImV4cCI6MX0.a74'') (js ''k'')
     (VerifyOptions (Some (js ''HS256'')) (Some True)) = Inl (Thrown ''NOT_YET_VALID'')
   \<and> fst (sign reference 1000 [(js ''exp'', JNumber (Num 0))] (js ''k'') (SignOptions None (Some [])))
       = Inr (js ''eyJhbGciOiJIUzI1NiJ9.eyJleHAiOjAsImlhdCI6MX0.a94'')
   \<and> verify reference 1000 1000 (js ''eyJhbGciOiJIUzI1NiJ9.eyJleHAiOjAsImlhdCI6MX0.a94'') (js ''k'')
     (VerifyOptions (Some (js ''HS256'')) (Some True)) = Inr True"
proof -
  have a: "verify reference 5000 5000 (js ''e30.eyJuYmYiOjksImV4cCI6MX0.a74'') (js ''k'')
     (VerifyOptions (Some (js ''HS256'')) (Some True)) = Inl (Thrown ''NOT_YET_VALID'')"
    by (simp add: reference_eval codec_eval verify_eval)
  have b: "fst (sign reference 1000 [(js ''exp'', JNumber (Num 0))] (js ''k'')
                 (SignOptions None (Some [])))
       = Inr (js ''eyJhbGciOiJIUzI1NiJ9.eyJleHAiOjAsImlhdCI6MX0.a94'')"
    by (simp add: reference_eval codec_eval sign_eval split del: if_split)
  have c: "verify reference 1000 1000 (js ''eyJhbGciOiJIUzI1NiJ9.eyJleHAiOjAsImlhdCI6MX0.a94'')
     (js ''k'') (VerifyOptions (Some (js ''HS256'')) (Some True)) = Inr True"
    by (simp add: reference_eval codec_eval verify_eval)
  from a b c show ?thesis by simp
qed

text \<open>
  C3, amended. For a token of three parts and an algorithm that is found: when \<open>decode\<close>
  returns, the payload has an \<open>exp\<close> that is a number other than 0 and not greater than
  the current time in seconds, and the test of \<open>nbf\<close> does not fire (\<open>nbf\<close> is absent,
  or it is \<open>null\<close>, a boolean, a number or a string that is falsy or does not compare
  greater than the current time), \<open>verify\<close> throws \<open>EXPIRED\<close> if \<open>throwError\<close> is set
  and returns \<open>false\<close> otherwise, whatever \<open>crypto.subtle\<close> would do (its operations
  \<open>ik\<close> and \<open>sv\<close> are arbitrary).
\<close>

theorem verify_expired:
  assumes parts: "length (split 0x2E token) = 3"
    and alg: "lookup_algorithm (fst (verify_options arg)) \<noteq> NotFound"
    and dec: "decode P token = Inr d"
    and exp: "get_claim (payload d) (js ''exp'') = Some (JNumber n)"
    and nz: "n \<noteq> Num 0"
    and le: "\<not> num_less (Num (of_int (unix_seconds t_exp))) n"
    and prim: "get_claim (payload d) (js ''nbf'') = None
               \<or> (\<exists>x. get_claim (payload d) (js ''nbf'') = Some x \<and> is_primitive x)"
    and nbf: "nbf_test P (payload d) (unix_seconds t_nbf) = Inr False"
  shows "verify (P\<lparr>importKey := ik, subtle_verify := sv\<rparr>) t_nbf t_exp token secret arg =
           (if snd (verify_options arg) then Inl (Thrown ''EXPIRED'') else Inr False)"
proof -
  obtain a t where opts: "verify_options arg = (a, t)" by (cases "verify_options arg")
  from exp obtain ps where obj: "payload d = JObject ps" by (cases "payload d") simp_all
  have tr: "truthy (payload d)" by (simp add: obj)
  have e: "exp_test P (payload d) (unix_seconds t_exp) = Inr True"
    using exp nz le by (simp add: exp_test_def truthy_prop_def js_le_def ToNumber_def)
  from opts parts alg dec tr e nbf show ?thesis
    by (auto simp add: verify_def Let_def outcome_def decode_crypto tests_crypto
        split: alg_lookup.splits)
qed

text \<open>The payload \<open>{"exp":1}\<close> at second 5, with a primitive that would accept any
  signature.\<close>

theorem verify_expired_witness:
  "length (split 0x2E (js ''e30.eyJleHAiOjF9.a74'')) = 3
   \<and> lookup_algorithm (fst (verify_options (VerifyOptions (Some (js ''HS256'')) (Some True))))
       \<noteq> NotFound
   \<and> decode reference (js ''e30.eyJleHAiOjF9.a74'')
       = Inr \<lparr>header = JObject [], payload = JObject [(js ''exp'', JNumber (Num 1))]\<rparr>
   \<and> verify (reference\<lparr>importKey := importKey reference, subtle_verify := \<lambda>a k s d. Inr True\<rparr>)
        5000 5000 (js ''e30.eyJleHAiOjF9.a74'') (js ''k'')
        (VerifyOptions (Some (js ''HS256'')) (Some True)) = Inl (Thrown ''EXPIRED'')"
proof -
  let ?arg = "VerifyOptions (Some (js ''HS256'')) (Some True)"
  let ?d = "\<lparr>header = JObject [], payload = JObject [(js ''exp'', JNumber (Num 1))]\<rparr>"
  have parts: "length (split 0x2E (js ''e30.eyJleHAiOjF9.a74'')) = 3"
    by (simp add: js_def cu_def)
  have alg: "lookup_algorithm (fst (verify_options ?arg)) \<noteq> NotFound"
    by (simp add: verify_eval js_def cu_def)
  have dec: "decode reference (js ''e30.eyJleHAiOjF9.a74'') = Inr ?d"
    by (simp add: reference_eval codec_eval)
  have exp: "get_claim (payload ?d) (js ''exp'') = Some (JNumber (Num 1))"
    by simp
  have nz: "Num 1 \<noteq> Num 0" by simp
  have le: "\<not> num_less (Num (of_int (unix_seconds 5000))) (Num 1)"
    by (simp add: unix_seconds_def)
  have prim: "get_claim (payload ?d) (js ''nbf'') = None
               \<or> (\<exists>x. get_claim (payload ?d) (js ''nbf'') = Some x \<and> is_primitive x)"
    by (simp add: js_def cu_def)
  have nbf: "nbf_test reference (payload ?d) (unix_seconds 5000) = Inr False"
    by (simp add: nbf_test_def truthy_prop_def js_def cu_def)
  have t: "snd (verify_options ?arg)" by (simp add: verify_options_def)
  from verify_expired [OF parts alg dec exp nz le prim nbf,
      where ik = "importKey reference" and sv = "\<lambda>a k s d. Inr True" and secret = "js ''k''"]
    parts alg dec t
  show ?thesis by simp
qed

section \<open>Claim C4: the default algorithm of \<open>verify\<close>\<close>

text \<open>
  C4 says that \<open>verify\<close> uses HS256 when it is called without options. The code uses
  ES256 there: the default parameter \<open>{ algorithm: ES256, throwError: false }\<close> is spread
  over \<open>{ algorithm: HS256, ... }\<close> and wins. HS256 is used when an options object is
  given that has no \<open>algorithm\<close>. The token below carries the HS256 tag of the
  reference platform for the key \<open>k\<close>: it verifies under an options object without
  \<open>algorithm\<close>, and without options the key is imported for ECDSA, which fails.
\<close>

theorem verify_default_algorithm:
  "fst (verify_options NoVerifyOptions) = js ''ES256''
   \<and> lookup_algorithm (fst (verify_options NoVerifyOptions))
       = Registered \<lparr>name = ''ECDSA'', namedCurve = Some ''P-256'', hash = ''SHA-256''\<rparr>
   \<and> fst (verify_options (VerifyOptions None t)) = js ''HS256''
   \<and> verify reference 0 0 (js ''e30.e30.a74'') (js ''k'') (VerifyOptions None None) = Inr True
   \<and> verify reference 0 0 (js ''e30.e30.a74'') (js ''k'') NoVerifyOptions
       = Inl (CryptoError ''DataError'')"
proof -
  have a: "fst (verify_options NoVerifyOptions) = js ''ES256''"
          "fst (verify_options (VerifyOptions None t)) = js ''HS256''"
    by (simp_all add: verify_options_def)
  have b: "lookup_algorithm (js ''ES256'')
       = Registered \<lparr>name = ''ECDSA'', namedCurve = Some ''P-256'', hash = ''SHA-256''\<rparr>"
    by (simp add: lookup_algorithm_def algorithms_def)
  have d: "verify reference 0 0 (js ''e30.e30.a74'') (js ''k'') (VerifyOptions None None)
           = Inr True"
    by (simp add: reference_eval codec_eval verify_eval split del: if_split)
  have e: "verify reference 0 0 (js ''e30.e30.a74'') (js ''k'') NoVerifyOptions
           = Inl (CryptoError ''DataError'')"
    by (simp add: reference_eval codec_eval verify_eval split del: if_split)
  from a b d e show ?thesis by simp
qed

section \<open>Claim C5: the \<open>alg\<close> field of the header\<close>



section \<open>Claim C6: \<open>sign\<close> and the caller's payload\<close>

text \<open>
  C6 says that \<open>sign\<close> leaves the caller's payload object unchanged. The code assigns
  \<open>payload.iat\<close> on the object it was given: after the call below the object has the
  property \<open>iat\<close>, which it did not have, and the value of \<open>x\<close> it had.
\<close>

theorem sign_mutates_payload_counterexample:
  "snd (sign reference 1000 [(js ''x'', JBool True)] (js ''k'') (SignAlgorithm (js ''HS256'')))
     = [(js ''x'', JBool True), (js ''iat'', JNumber (Num 1))]"
  by (simp add: sign_def sign_options_def lookup_algorithm_def algorithms_def unix_seconds_def
      Let_def js_def cu_def)

text \<open>
  C6, amended. Once the algorithm is found, \<open>sign\<close> writes \<open>iat\<close> into the caller's
  payload object, whether it then returns a token or throws: the object ends with
  \<open>iat\<close> equal to the current time in seconds and with every other property as it was,
  and the token is built from that same object. When the algorithm is not found
  \<open>sign\<close> throws and the object is unchanged.
\<close>

theorem sign_writes_iat:
  "(lookup_algorithm (fst (sign_options arg)) \<noteq> NotFound \<longrightarrow>
      snd (sign P t pl secret arg)
        = set_prop (js ''iat'') (JNumber (Num (of_int (unix_seconds t)))) pl
      \<and> map_of (snd (sign P t pl secret arg))
        = (map_of pl)(js ''iat'' \<mapsto> JNumber (Num (of_int (unix_seconds t))))
      \<and> fst (sign P t pl secret arg)
        = sign_token P (subtle_algorithm (lookup_algorithm (fst (sign_options arg))))
            (fst (sign_options arg)) (snd (sign_options arg)) (snd (sign P t pl secret arg))
            secret)
   \<and> (lookup_algorithm (fst (sign_options arg)) = NotFound \<longrightarrow>
      sign P t pl secret arg = (Inl (Error ''algorithm not found''), pl))"
  by (cases "sign_options arg")
     (auto simp add: sign_def Let_def map_of_set_prop split: alg_lookup.splits)

text \<open>A call that returns a token, one that throws after the assignment (the reference
  platform imports no RSA key from a raw secret), and one that throws before it.\<close>

theorem sign_writes_iat_witness:
  "lookup_algorithm (fst (sign_options (SignOptions (Some (js ''HS256'')) (Some [])))) \<noteq> NotFound
   \<and> sign reference 1000 [(js ''iat'', JNumber (Num 7))] (js ''k'')
       (SignOptions (Some (js ''HS256'')) (Some []))
     = (Inr (js ''eyJhbGciOiJIUzI1NiJ9.eyJpYXQiOjF9.azw''), [(js ''iat'', JNumber (Num 1))])
   \<and> lookup_algorithm (fst (sign_options (SignOptions (Some (js ''RS256'')) (Some [])))) \<noteq> NotFound
   \<and> sign reference 1000 [(js ''x'', JBool True)] (js ''k'')
       (SignOptions (Some (js ''RS256'')) (Some []))
     = (Inl (CryptoError ''DataError''), [(js ''x'', JBool True), (js ''iat'', JNumber (Num 1))])
   \<and> lookup_algorithm (fst (sign_options (SignAlgorithm (js ''XX999'')))) = NotFound
   \<and> sign reference 1000 [(js ''x'', JBool True)] (js ''k'') (SignAlgorithm (js ''XX999''))
     = (Inl (Error ''algorithm not found''), [(js ''x'', JBool True)])"
proof -
  let ?hs = "SignOptions (Some (js ''HS256'')) (Some [])"
  let ?rs = "SignOptions (Some (js ''RS256'')) (Some [])"
  let ?xx = "SignAlgorithm (js ''XX999'')"
  have a: "lookup_algorithm (fst (sign_options ?hs)) \<noteq> NotFound"
          "lookup_algorithm (fst (sign_options ?rs)) \<noteq> NotFound"
          "lookup_algorithm (fst (sign_options ?xx)) = NotFound"
    by (simp_all add: sign_options_def lookup_algorithm_def algorithms_def
        object_prototype_keys_def js_def cu_def)
  have b: "fst (sign reference 1000 [(js ''iat'', JNumber (Num 7))] (js ''k'') ?hs)
           = Inr (js ''eyJhbGciOiJIUzI1NiJ9.eyJpYXQiOjF9.azw'')"
    by (simp add: reference_eval codec_eval sign_eval split del: if_split)
  have c: "fst (sign reference 1000 [(js ''x'', JBool True)] (js ''k'') ?rs)
           = Inl (CryptoError ''DataError'')"
    by (simp add: reference_eval codec_eval sign_eval split del: if_split)
  have s: "set_prop (js ''iat'') (JNumber (Num (of_int (unix_seconds 1000))))
             [(js ''iat'', JNumber (Num 7))] = [(js ''iat'', JNumber (Num 1))]"
          "set_prop (js ''iat'') (JNumber (Num (of_int (unix_seconds 1000))))
             [(js ''x'', JBool True)] = [(js ''x'', JBool True), (js ''iat'', JNumber (Num 1))]"
    by (simp_all add: unix_seconds_def js_def cu_def)
  have hs: "snd (sign reference 1000 [(js ''iat'', JNumber (Num 7))] (js ''k'') ?hs)
            = [(js ''iat'', JNumber (Num 1))]"
    using sign_writes_iat [of ?hs reference 1000 "[(js ''iat'', JNumber (Num 7))]" "js ''k''"]
      a(1) s(1) by simp
  have rs: "snd (sign reference 1000 [(js ''x'', JBool True)] (js ''k'') ?rs)
            = [(js ''x'', JBool True), (js ''iat'', JNumber (Num 1))]"
    using sign_writes_iat [of ?rs reference 1000 "[(js ''x'', JBool True)]" "js ''k''"]
      a(2) s(2) by simp
  have xx: "sign reference 1000 [(js ''x'', JBool True)] (js ''k'') ?xx
            = (Inl (Error ''algorithm not found''), [(js ''x'', JBool True)])"
    using sign_writes_iat [of ?xx reference 1000 "[(js ''x'', JBool True)]" "js ''k''"]
      a(3) by blast
  from a b c hs rs xx show ?thesis by (simp only: prod_eq_iff fst_conv snd_conv simp_thms)
qed

section \<open>Claim C7: a malformed token always throws\<close>

text \<open>
  C7. For every token that does not split on \<open>.\<close> into exactly three parts, and every
  secret and options, \<open>verify\<close> throws the error \<open>token must consist of 3 parts\<close>,
  whatever the value of \<open>throwError\<close> (and whatever the algorithm: the parts are counted
  before the algorithm is looked up).
\<close>

theorem verify_malformed_token_throws:
  "length (split 0x2E token) \<noteq> 3 \<Longrightarrow>
   verify P t_nbf t_exp token secret arg = Inl (Error ''token must consist of 3 parts'')"
  by (simp add: verify_def Let_def split: prod.splits)

text \<open>The token \<open>a.b\<close> of the specification, with \<open>throwError\<close> unset and set.\<close>

theorem verify_malformed_token_throws_witness:
  "length (split 0x2E (js ''a.b'')) \<noteq> 3
   \<and> verify reference 0 0 (js ''a.b'') (js ''secret'') (VerifyOptions (Some (js ''HS256'')) (Some False))
       = Inl (Error ''token must consist of 3 parts'')
   \<and> verify reference 0 0 (js ''a.b'') (js ''secret'') (VerifyOptions (Some (js ''HS256'')) (Some True))
       = Inl (Error ''token must consist of 3 parts'')"
proof -
  have h: "length (split 0x2E (js ''a.b'')) \<noteq> 3" by (simp add: js_def cu_def)
  show ?thesis
    using h verify_malformed_token_throws [OF h, of reference 0 0] by simp
qed

section \<open>Claim C9: a falsy payload is a parse error\<close>

text \<open>
  C9 says that every token of three parts whose payload decodes to a falsy value has the
  outcome PARSE_ERROR. \<open>verify\<close> decodes the header as well, through \<open>decode\<close>, and a
  header whose length leaves the remainder 1 modulo 4 makes it throw
  \<open>Illegal base64url string!\<close>, with \<open>throwError\<close> unset too. The payload \<open>MA\<close> below is
  the text \<open>0\<close>.
\<close>

theorem verify_falsy_payload_counterexample:
  "decodePayload reference (to_base64 (js ''MA'')) = Inr (JNumber (Num 0))
   \<and> verify reference 0 0 (js ''a.MA.a74'') (js ''k'') (VerifyOptions (Some (js ''HS256'')) (Some False))
       = Inl (Error ''Illegal base64url string!'')"
  by (simp add: reference_eval codec_eval verify_eval split del: if_split)

text \<open>
  C9, amended. For a token of three parts whose header segment has a length that does
  not leave the remainder 1 modulo 4, and an algorithm that is found: when the payload
  segment decodes to a falsy value (\<open>null\<close>, \<open>false\<close>, \<open>0\<close> or the empty string),
  \<open>verify\<close> throws \<open>PARSE_ERROR\<close> if \<open>throwError\<close> is set and returns \<open>false\<close> otherwise,
  whatever \<open>crypto.subtle\<close> would answer for the signature (its operations \<open>ik\<close> and
  \<open>sv\<close> are arbitrary).
\<close>

theorem verify_falsy_payload:
  assumes parts: "split 0x2E token = [h, p, s]"
    and alg: "lookup_algorithm (fst (verify_options arg)) \<noteq> NotFound"
    and hlen: "length h mod 4 \<noteq> 1"
    and dec: "decodePayload P (to_base64 p) = Inr v"
    and falsy: "v \<in> falsy_values"
  shows "verify (P\<lparr>importKey := ik, subtle_verify := sv\<rparr>) t_nbf t_exp token secret arg =
           (if snd (verify_options arg) then Inl (Thrown ''PARSE_ERROR'') else Inr False)"
proof -
  obtain a t where opts: "verify_options arg = (a, t)" by (cases "verify_options arg")
  have d: "decode P token = Inr \<lparr>header = parsed_or_null P h, payload = v\<rparr>"
    using parts hlen dec by (simp add: decode_def decodePayload_legal)
  have "\<not> truthy v" using falsy by (simp add: falsy_iff)
  with opts parts alg d show ?thesis
    by (auto simp add: verify_def Let_def outcome_def decode_crypto split: alg_lookup.splits)
qed

text \<open>The payload \<open>0\<close> under a header that parses, with a primitive that would accept
  any signature, and \<open>throwError\<close> set.\<close>

theorem verify_falsy_payload_witness:
  "split 0x2E (js ''e30.MA.a74'') = [js ''e30'', js ''MA'', js ''a74'']
   \<and> lookup_algorithm (fst (verify_options (VerifyOptions (Some (js ''HS256'')) (Some True))))
       \<noteq> NotFound
   \<and> length (js ''e30'') mod 4 \<noteq> 1
   \<and> decodePayload reference (to_base64 (js ''MA'')) = Inr (JNumber (Num 0))
   \<and> JNumber (Num 0) \<in> falsy_values
   \<and> verify (reference\<lparr>importKey := importKey reference, subtle_verify := \<lambda>a k s d. Inr True\<rparr>)
        0 0 (js ''e30.MA.a74'') (js ''k'') (VerifyOptions (Some (js ''HS256'')) (Some True))
       = Inl (Thrown ''PARSE_ERROR'')"
proof -
  let ?arg = "VerifyOptions (Some (js ''HS256'')) (Some True)"
  have parts: "split 0x2E (js ''e30.MA.a74'') = [js ''e30'', js ''MA'', js ''a74'']"
    by (simp add: js_def cu_def)
  have alg: "lookup_algorithm (fst (verify_options ?arg)) \<noteq> NotFound"
    by (simp add: verify_eval js_def cu_def)
  have hlen: "length (js ''e30'') mod 4 \<noteq> 1" by (simp add: js_def)
  have dec: "decodePayload reference (to_base64 (js ''MA'')) = Inr (JNumber (Num 0))"
    by (simp add: reference_eval codec_eval split del: if_split)
  have falsy: "JNumber (Num 0) \<in> falsy_values" by (simp add: falsy_values_def)
  have t: "snd (verify_options ?arg)" by (simp add: verify_options_def)
  from verify_falsy_payload [OF parts alg hlen dec falsy,
      where ik = "importKey reference" and sv = "\<lambda>a k s d. Inr True" and secret = "js ''k''"]
    parts alg hlen dec falsy t
  show ?thesis by simp
qed

section \<open>Claim C10: \<open>decode\<close> reads the first two segments only\<close>

text \<open>
  C10. Two tokens whose lists of segments agree on the first two places (the first and
  the second segment when both have them, the only segment when neither has a second
  one) give the same result of \<open>decode\<close>: the same \<open>{header, payload}\<close>, or the same
  thrown value. The signature segment and any further segment are not read.
\<close>

theorem decode_first_two_segments:
  "take 2 (split 0x2E t1) = take 2 (split 0x2E t2) \<Longrightarrow> decode P t1 = decode P t2"
proof -
  assume eq: "take 2 (split 0x2E t1) = take 2 (split 0x2E t2)"
  have shape: "decode P t =
      (case take 2 (split 0x2E t) of
        [] \<Rightarrow> Inl TypeError
      | [h] \<Rightarrow> (case decodePayload P (to_base64 h) of Inl e \<Rightarrow> Inl e | Inr hv \<Rightarrow> Inl TypeError)
      | h # p # _ \<Rightarrow>
          (case decodePayload P (to_base64 h) of
             Inl e \<Rightarrow> Inl e
           | Inr hv \<Rightarrow>
               (case decodePayload P (to_base64 p) of
                  Inl e \<Rightarrow> Inl e
                | Inr pl \<Rightarrow> Inr \<lparr>header = hv, payload = pl\<rparr>)))" for t
    by (simp add: decode_def split: list.splits sum.splits)
  show ?thesis by (simp only: shape eq)
qed

text \<open>Two tokens with the segments \<open>e30\<close> and \<open>MQ\<close> (the texts \<open>{}\<close> and \<open>1\<close>), one of
  three parts and one of five.\<close>

theorem decode_first_two_segments_witness:
  "take 2 (split 0x2E (js ''e30.MQ.a74'')) = take 2 (split 0x2E (js ''e30.MQ.x.y.z''))
   \<and> decode reference (js ''e30.MQ.a74'') = Inr \<lparr>header = JObject [], payload = JNumber (Num 1)\<rparr>
   \<and> decode reference (js ''e30.MQ.x.y.z'') = Inr \<lparr>header = JObject [], payload = JNumber (Num 1)\<rparr>"
proof -
  have h: "take 2 (split 0x2E (js ''e30.MQ.a74'')) = take 2 (split 0x2E (js ''e30.MQ.x.y.z''))"
    by (simp add: js_def cu_def)
  have d: "decode reference (js ''e30.MQ.a74'') = Inr \<lparr>header = JObject [], payload = JNumber (Num 1)\<rparr>"
    by (simp add: reference_eval codec_eval)
  show ?thesis
    using h d decode_first_two_segments [OF h, of reference] by simp
qed


end
